theory Spec2Isabelle
  imports Main "HOL-Library.Sublist" "HOL-Library.Char_ord" "HOL-Library.List_Lexorder"
begin

section \<open>The JavaScript primitives the plugin code relies on\<close>

text \<open>
  The repository holds two TypeScript plugins with the same function names:
  \<^item> \<^verbatim>\<open>plugin-hedera-dex/src/plugin.ts\<close>, whose functions keep their names here
    (\<open>hexToHederaId\<close>, \<open>extractPoolContractId\<close>, \<open>fetchTokenInfo\<close>,
    \<open>parsePoolCreationEvents\<close>, \<open>listPoolsAction\<close>, \<open>getPoolInfoAction\<close>);
  \<^item> \<^verbatim>\<open>src/plugin.ts\<close>, whose functions carry the suffix \<open>_v1\<close>
    (\<open>hexToHederaId_v1\<close>, \<open>fetchTokenInfo_v1\<close>, \<open>parsePoolCreationEvents_v1\<close>)
    except \<open>fetchAllPoolsAction\<close>, \<open>getHederaMirrorNodeUrl\<close> and \<open>mockPoolsData\<close>,
    which exist in that file only.

  Strings are byte strings. Character classes (white space, letters) are the ASCII ones.
\<close>

subsection \<open>Numbers\<close>

text \<open>
  A JavaScript Number that the code can obtain from \<^verbatim>\<open>parseInt\<close>, \<^verbatim>\<open>+\<close> and
  \<^verbatim>\<open>Math.abs\<close>: an integer-valued double, NaN or an infinity. \<open>Num v\<close> only ever holds
  a \<open>v\<close> that a double represents exactly; \<open>toNumber\<close> is the round-to-nearest,
  ties-to-even conversion of a mathematical integer to a double.
\<close>

datatype jsnum = Num int | NaN | PosInf | NegInf

function bitLength :: "nat \<Rightarrow> nat" where
  "bitLength n = (if n = 0 then 0 else Suc (bitLength (n div 2)))"
  by pat_completeness auto
termination
  by (relation "measure id") auto

declare bitLength.simps [simp del]

definition toNumber :: "int \<Rightarrow> jsnum" where
  "toNumber v =
     (let a = nat \<bar>v\<bar> in
      if a < 2 ^ 53 then Num v
      else
        let e = bitLength a - 53;
            q = a div 2 ^ e;
            r = a mod 2 ^ e;
            h = 2 ^ (e - 1);
            q' = (if h < r \<or> (r = h \<and> odd q) then q + 1 else q);
            m = q' * 2 ^ e
        in if 2 ^ 1024 \<le> m then (if 0 < v then PosInf else NegInf)
           else Num (if 0 < v then int m else - int m))"

fun jsadd :: "jsnum \<Rightarrow> jsnum \<Rightarrow> jsnum" where
  "jsadd (Num a) (Num b) = toNumber (a + b)"
| "jsadd NaN _ = NaN"
| "jsadd _ NaN = NaN"
| "jsadd PosInf NegInf = NaN"
| "jsadd NegInf PosInf = NaN"
| "jsadd PosInf _ = PosInf"
| "jsadd _ PosInf = PosInf"
| "jsadd NegInf _ = NegInf"
| "jsadd _ NegInf = NegInf"

fun Math_abs :: "jsnum \<Rightarrow> jsnum" where
  "Math_abs (Num a) = Num \<bar>a\<bar>"
| "Math_abs NaN = NaN"
| "Math_abs PosInf = PosInf"
| "Math_abs NegInf = PosInf"

text \<open>\<^verbatim>\<open>x === 0\<close> and \<^verbatim>\<open>x > c\<close> for a Number \<open>x\<close> and an integer literal \<open>c\<close>.\<close>

fun isZero :: "jsnum \<Rightarrow> bool" where
  "isZero (Num a) = (a = 0)"
| "isZero _ = False"

fun jsGreater :: "jsnum \<Rightarrow> int \<Rightarrow> bool" where
  "jsGreater (Num a) c = (c < a)"
| "jsGreater PosInf c = True"
| "jsGreater _ c = False"

subsection \<open>Decimal rendering of a Number\<close>

definition digitChar :: "nat \<Rightarrow> char" where
  "digitChar d = ''0123456789'' ! d"

function digits10 :: "nat \<Rightarrow> string" where
  "digits10 n = (if n < 10 then [digitChar n] else digits10 (n div 10) @ [digitChar (n mod 10)])"
  by pat_completeness auto
termination
  by (relation "measure id") auto

declare digits10.simps [simp del]

text \<open>
  \<^verbatim>\<open>`${x}`\<close> for a Number \<open>x\<close>. An integer below \<open>2^53\<close> in magnitude prints as its
  decimal digits. From \<open>2^53\<close> on JavaScript prints the shortest digits that read back as
  the same double (zero-padded, and in exponent notation from \<open>10^21\<close>), which are not
  the digits of the integer; that rendering is the parameter \<open>bigNum\<close>.
\<close>

fun numberToString :: "(int \<Rightarrow> string) \<Rightarrow> jsnum \<Rightarrow> string" where
  "numberToString bigNum (Num v) =
     (if \<bar>v\<bar> < 2 ^ 53 then (if v < 0 then ''-'' else []) @ digits10 (nat \<bar>v\<bar>) else bigNum v)"
| "numberToString bigNum NaN = ''NaN''"
| "numberToString bigNum PosInf = ''Infinity''"
| "numberToString bigNum NegInf = ''-Infinity''"

subsection \<open>parseInt\<close>

definition isWhiteSpace :: "char \<Rightarrow> bool" where
  "isWhiteSpace c = (c \<in> set [CHR 0x09, CHR 0x0A, CHR 0x0B, CHR 0x0C, CHR 0x0D, CHR 0x20])"

fun indexOf :: "char \<Rightarrow> string \<Rightarrow> nat option" where
  "indexOf c [] = None"
| "indexOf c (x # xs) = (if x = c then Some 0 else map_option Suc (indexOf c xs))"

text \<open>The value of a digit character: \<open>0\<close>-\<open>9\<close>, then letters of either case from 10.\<close>

definition digitVal :: "char \<Rightarrow> nat option" where
  "digitVal c =
     (case indexOf c ''0123456789abcdefghijklmnopqrstuvwxyz'' of
        Some d \<Rightarrow> Some d
      | None \<Rightarrow> map_option (\<lambda>d. d + 10) (indexOf c ''ABCDEFGHIJKLMNOPQRSTUVWXYZ''))"

definition isRadixDigit :: "nat \<Rightarrow> char \<Rightarrow> bool" where
  "isRadixDigit R c = (case digitVal c of Some d \<Rightarrow> d < R | None \<Rightarrow> False)"

definition digitsValue :: "nat \<Rightarrow> string \<Rightarrow> nat" where
  "digitsValue R Z = foldl (\<lambda>acc c. acc * R + (case digitVal c of Some d \<Rightarrow> d | None \<Rightarrow> 0)) 0 Z"

text \<open>
  \<^verbatim>\<open>parseInt(s, radix)\<close> of ECMAScript: leading white space is skipped, one sign is
  read, \<^verbatim>\<open>0x\<close>/\<^verbatim>\<open>0X\<close> is stripped when the radix is 16 or absent (and then selects
  radix 16), the longest run of digits of the radix is read, and no digit at all gives NaN.
  \<open>radix = None\<close> is a call with one argument. The value read is rounded to a double;
  for radix 10 and more than 20 digits ECMAScript leaves the rounding to the
  implementation, and the model rounds correctly there too.
\<close>

definition parseInt :: "string \<Rightarrow> nat option \<Rightarrow> jsnum" where
  "parseInt s radix =
     (let s1 = dropWhile isWhiteSpace s;
          neg = (take 1 s1 = ''-'');
          s2 = (if take 1 s1 = ''+'' \<or> take 1 s1 = ''-'' then drop 1 s1 else s1);
          hasPrefix = (take 2 s2 = ''0x'' \<or> take 2 s2 = ''0X'');
          stripPrefix = ((radix = None \<or> radix = Some 16) \<and> hasPrefix);
          R = (case radix of Some r \<Rightarrow> r | None \<Rightarrow> if hasPrefix then 16 else 10);
          s3 = (if stripPrefix then drop 2 s2 else s2);
          Z = takeWhile (isRadixDigit R) s3
      in if R < 2 \<or> 36 < R then NaN
         else if Z = [] then NaN
         else toNumber ((if neg then - 1 else 1) * int (digitsValue R Z)))"

subsection \<open>Strings\<close>

text \<open>\<^verbatim>\<open>s.replace(pat, rep)\<close> with a string pattern: the first occurrence only.\<close>

fun replaceFirst :: "string \<Rightarrow> string \<Rightarrow> string \<Rightarrow> string" where
  "replaceFirst pat rep [] = (if pat = [] then rep else [])"
| "replaceFirst pat rep (c # cs) =
     (if prefix pat (c # cs) then rep @ drop (length pat) (c # cs)
      else c # replaceFirst pat rep cs)"

text \<open>\<^verbatim>\<open>s.slice(-n)\<close>: the last \<open>n\<close> characters, the whole string when it is shorter.\<close>

definition sliceLast :: "nat \<Rightarrow> string \<Rightarrow> string" where
  "sliceLast n s = drop (length s - n) s"

text \<open>\<^verbatim>\<open>s.slice(a, b)\<close> for \<open>0 \<le> a \<le> b\<close>.\<close>

definition slice :: "nat \<Rightarrow> nat \<Rightarrow> string \<Rightarrow> string" where
  "slice a b s = take (b - a) (drop a s)"

text \<open>\<^verbatim>\<open>s.split(c)\<close> for a one-character separator.\<close>

fun split :: "char \<Rightarrow> string \<Rightarrow> string list" where
  "split c [] = [[]]"
| "split c (x # xs) =
     (if x = c then [] # split c xs
      else (case split c xs of [] \<Rightarrow> [[x]] | y # ys \<Rightarrow> (x # y) # ys))"

text \<open>\<^verbatim>\<open>xs[i]\<close>: \<open>None\<close> is \<^verbatim>\<open>undefined\<close>.\<close>

definition at :: "'a list \<Rightarrow> nat \<Rightarrow> 'a option" where
  "at xs i = (if i < length xs then Some (xs ! i) else None)"

text \<open>\<^verbatim>\<open>parseInt(x)\<close> of a value that may be \<^verbatim>\<open>undefined\<close>, which is first turned into
  the string \<^verbatim>\<open>"undefined"\<close>.\<close>

definition parseIntOpt :: "string option \<Rightarrow> jsnum" where
  "parseIntOpt x = parseInt (case x of Some s \<Rightarrow> s | None \<Rightarrow> ''undefined'') None"

text \<open>\<^verbatim>\<open>s.toUpperCase()\<close> on ASCII letters; other bytes are unchanged.\<close>

definition upperChar :: "char \<Rightarrow> char" where
  "upperChar c =
     (case indexOf c ''abcdefghijklmnopqrstuvwxyz'' of
        Some i \<Rightarrow> ''ABCDEFGHIJKLMNOPQRSTUVWXYZ'' ! i
      | None \<Rightarrow> c)"

definition toUpperCase :: "string \<Rightarrow> string" where
  "toUpperCase s = map upperChar s"

text \<open>\<^verbatim>\<open>s.includes(sub)\<close>.\<close>

fun str_includes :: "string \<Rightarrow> string \<Rightarrow> bool" where
  "str_includes [] sub = (sub = [])"
| "str_includes (c # cs) sub = (prefix sub (c # cs) \<or> str_includes cs sub)"

section \<open>plugin-hedera-dex: decoding topics\<close>

text \<open>
  \<^verbatim>\<open>hexToHederaId\<close>: removes the first \<^verbatim>\<open>0x\<close>, keeps the last 8 characters, parses
  them in radix 16 and maps 0 and everything above 100,000,000 to the invalid id
  \<^verbatim>\<open>0.0.0\<close>. The parsed text has at most 8 characters, so the number is below
  \<open>2^53\<close> and \<open>bigNum\<close> is never consulted; it is a parameter only because
  \<open>numberToString\<close> has it.
\<close>

definition hexToHederaId :: "(int \<Rightarrow> string) \<Rightarrow> string \<Rightarrow> string" where
  "hexToHederaId bigNum hex =
     (let cleanHex = replaceFirst ''0x'' [] hex;
          entityHex = sliceLast 8 cleanHex;
          entityNum = parseInt entityHex (Some 16)
      in if isZero entityNum \<or> jsGreater entityNum 100000000 then ''0.0.0''
         else ''0.0.'' @ numberToString bigNum entityNum)"

text \<open>
  \<^verbatim>\<open>extractPoolContractId\<close>: the event data is ignored; the id is built from the sum of
  the two entity numbers plus 1,000,000. No operation in the \<^verbatim>\<open>try\<close> block throws on
  string arguments, so the \<^verbatim>\<open>catch\<close> branch (returning \<^verbatim>\<open>0.0.0\<close>) is unreachable.
\<close>

definition extractPoolContractId :: "(int \<Rightarrow> string) \<Rightarrow> string \<Rightarrow> string \<Rightarrow> string \<Rightarrow> string" where
  "extractPoolContractId bigNum eventData token0Id token1Id =
     (let token0Num = parseIntOpt (at (split CHR ''.'' token0Id) 2);
          token1Num = parseIntOpt (at (split CHR ''.'' token1Id) 2);
          syntheticPoolNum = Math_abs (jsadd (jsadd token0Num token1Num) (Num 1000000))
      in ''0.0.'' @ numberToString bigNum syntheticPoolNum)"

section \<open>The mirror node and the values it returns\<close>

text \<open>
  An error value is what a \<^verbatim>\<open>throw\<close> or a rejected promise carries; \<open>message\<close> is
  its \<^verbatim>\<open>.message\<close>.
\<close>

datatype error = Error string | TypeError string

fun message :: "error \<Rightarrow> string" where
  "message (Error m) = m"
| "message (TypeError m) = m"

text \<open>
  A raw log entry of the mirror node. \<open>topics = None\<close> is an entry without a
  \<^verbatim>\<open>topics\<close> field.
\<close>

record RawLog =
  topics :: "string list option"
  data :: string

text \<open>
  The body of a mirror-node response (\<^verbatim>\<open>response.data\<close>), with the fields the two
  plugins read; an absent field is \<open>None\<close>. One type serves the log endpoint and the
  token endpoint, as both are untyped JSON in the source. Text fields are JSON strings
  and \<^verbatim>\<open>decimals\<close> is a JSON number, as the interface \<^verbatim>\<open>ApiToken\<close> declares it.
\<close>

record payload =
  p_logs :: "RawLog list option"
  p_decimals :: "int option"
  p_name :: "string option"
  p_symbol :: "string option"
  p_token_id :: "string option"
  p_memo :: "string option"

text \<open>
  The network: the reply to the \<open>k\<close>-th request (counted from 0) when it asks for
  \<open>url\<close>; \<open>Inl\<close> is a rejected request, \<open>Inr None\<close> a response without a body.
  The list of URLs requested so far is threaded through every function that calls
  \<^verbatim>\<open>axios.get\<close>.
\<close>

type_synonym http = "nat \<Rightarrow> string \<Rightarrow> error + payload option"

definition axios_get :: "http \<Rightarrow> string \<Rightarrow> string list \<Rightarrow> (error + payload option) \<times> string list" where
  "axios_get net url calls = (net (length calls) url, calls @ [url])"

text \<open>\<^verbatim>\<open>x || d\<close> for a string and for a number that may be absent.\<close>

definition strOr :: "string option \<Rightarrow> string \<Rightarrow> string" where
  "strOr x d = (case x of Some s \<Rightarrow> (if s = [] then d else s) | None \<Rightarrow> d)"

definition numOr :: "int option \<Rightarrow> int \<Rightarrow> int" where
  "numOr x d = (case x of Some n \<Rightarrow> (if n = 0 then d else n) | None \<Rightarrow> d)"

section \<open>plugin-hedera-dex: token metadata and pool assembly\<close>

text \<open>
  The interfaces \<^verbatim>\<open>ApiToken\<close> and \<^verbatim>\<open>ApiLiquidityPoolV2\<close>. Their field \<^verbatim>\<open>id\<close> is
  \<open>token_id\<close> and \<open>pool_id\<close> here; the optional \<^verbatim>\<open>icon\<close>, which this plugin never
  sets, is left out. The fee is a Number as \<^verbatim>\<open>parseInt\<close> returns it.
\<close>

record ApiToken =
  decimals :: int
  token_id :: string
  name :: string
  price :: string
  priceUsd :: int
  symbol :: string
  dueDiligenceComplete :: bool
  isFeeOnTransferToken :: bool
  timestampSecondsLastListingChange :: int
  description :: "string option"
  website :: "string option"
  twitterHandle :: "string option"
  sentinelReport :: "string option"

record ApiLiquidityPoolV2 =
  pool_id :: nat
  contractId :: string
  tokenA :: ApiToken
  amountA :: string
  tokenB :: ApiToken
  amountB :: string
  fee :: jsnum
  sqrtRatioX96 :: string
  tickCurrent :: int
  liquidity :: string

text \<open>
  \<^verbatim>\<open>fetchTokenInfo\<close>: one request; a rejected request, or a response without a body
  (reading a field of it throws), is caught and gives \<^verbatim>\<open>null\<close>.
\<close>

definition fetchTokenInfo :: "http \<Rightarrow> string \<Rightarrow> string \<Rightarrow> string list \<Rightarrow> ApiToken option \<times> string list" where
  "fetchTokenInfo net tokenId mirrorNodeUrl calls =
     (case axios_get net (mirrorNodeUrl @ ''/api/v1/tokens/'' @ tokenId) calls of
        (Inl e, calls') \<Rightarrow> (None, calls')
      | (Inr None, calls') \<Rightarrow> (None, calls')
      | (Inr (Some token), calls') \<Rightarrow>
          (Some \<lparr> decimals = numOr (p_decimals token) 8,
                  token_id = tokenId,
                  name = strOr (p_name token) ''Unknown Token'',
                  price = ''0'',
                  priceUsd = 0,
                  symbol = strOr (p_symbol token) ''UNKNOWN'',
                  dueDiligenceComplete = False,
                  isFeeOnTransferToken = False,
                  timestampSecondsLastListingChange = 0,
                  description = None,
                  website = None,
                  twitterHandle = None,
                  sentinelReport = None \<rparr>, calls'))"

definition POOL_CREATED_TOPIC :: string where
  "POOL_CREATED_TOPIC = ''0x783cca1c0412dd0d695e784568c96da2e9c22ff989357a2e8b1d9b2b4e6b7118''"

text \<open>
  The test of the loop body: the entry has topics, the first is the pool-created
  signature and there are at least four.
\<close>

definition isPoolCreation :: "RawLog \<Rightarrow> bool" where
  "isPoolCreation log =
     (case topics log of
        None \<Rightarrow> False
      | Some ts \<Rightarrow> at ts 0 = Some POOL_CREATED_TOPIC \<and> 4 \<le> length ts)"

text \<open>
  One iteration of the \<^verbatim>\<open>for\<close> loop of \<^verbatim>\<open>parsePoolCreationEvents\<close>, on the pools
  collected so far and the requests made so far. \<^verbatim>\<open>Promise.all\<close> starts the request
  for token 0, then the one for token 1, and waits for both. Topics 1 to 3 exist, as
  there are at least four. Nothing inside the \<^verbatim>\<open>try\<close> block throws on string topics
  (\<open>fetchTokenInfo\<close> catches its own errors), so its \<^verbatim>\<open>catch\<close> is not reached; the
  logging calls are left out.
\<close>

definition processLog ::
  "http \<Rightarrow> (int \<Rightarrow> string) \<Rightarrow> string \<Rightarrow> ApiLiquidityPoolV2 list \<times> string list \<Rightarrow> RawLog
     \<Rightarrow> ApiLiquidityPoolV2 list \<times> string list" where
  "processLog net bigNum mirrorNodeUrl st log =
     (let (pools, calls) = st in
      if isPoolCreation log then
        (let ts = (case topics log of Some ts \<Rightarrow> ts | None \<Rightarrow> []);
             token0Id = hexToHederaId bigNum (ts ! 1);
             token1Id = hexToHederaId bigNum (ts ! 2);
             fee = parseInt (ts ! 3) (Some 16);
             poolId = extractPoolContractId bigNum (data log) token0Id token1Id
         in if token0Id = ''0.0.0'' \<or> token1Id = ''0.0.0'' \<or> poolId = ''0.0.0'' then (pools, calls)
            else
              (let (tokenA, calls1) = fetchTokenInfo net token0Id mirrorNodeUrl calls;
                   (tokenB, calls2) = fetchTokenInfo net token1Id mirrorNodeUrl calls1
               in case (tokenA, tokenB) of
                    (Some a, Some b) \<Rightarrow>
                      (pools @ [\<lparr> pool_id = length pools + 1,
                                   contractId = poolId,
                                   tokenA = a,
                                   amountA = ''0'',
                                   tokenB = b,
                                   amountB = ''0'',
                                   fee = fee,
                                   sqrtRatioX96 = ''79228162514264337593543950336'',
                                   tickCurrent = 0,
                                   liquidity = ''Available'' \<rparr>], calls2)
                  | _ \<Rightarrow> (pools, calls2)))
      else (pools, calls))"

fun parseLoop ::
  "http \<Rightarrow> (int \<Rightarrow> string) \<Rightarrow> string \<Rightarrow> RawLog list \<Rightarrow> ApiLiquidityPoolV2 list \<times> string list
     \<Rightarrow> ApiLiquidityPoolV2 list \<times> string list" where
  "parseLoop net bigNum mirrorNodeUrl [] st = st"
| "parseLoop net bigNum mirrorNodeUrl (log # logs) st =
     parseLoop net bigNum mirrorNodeUrl logs (processLog net bigNum mirrorNodeUrl st log)"

definition parsePoolCreationEvents ::
  "http \<Rightarrow> (int \<Rightarrow> string) \<Rightarrow> RawLog list \<Rightarrow> string \<Rightarrow> string list
     \<Rightarrow> ApiLiquidityPoolV2 list \<times> string list" where
  "parsePoolCreationEvents net bigNum logs mirrorNodeUrl calls =
     parseLoop net bigNum mirrorNodeUrl logs ([], calls)"

section \<open>plugin-hedera-dex: the actions\<close>

text \<open>
  What \<^verbatim>\<open>runtime.getSetting\<close> returns for the three settings the plugins know;
  \<open>None\<close> is an unset setting.
\<close>

record Settings =
  HEDERA_NETWORK :: "string option"
  HEDERA_MIRROR_NODE_URL :: "string option"
  DEMO_MODE :: "string option"

text \<open>
  The \<^verbatim>\<open>ActionResult\<close> of a handler. \<open>Success text poolCount pools dataSource\<close> holds
  \<^verbatim>\<open>text\<close>, \<^verbatim>\<open>values.poolCount\<close>, \<^verbatim>\<open>data.pools\<close> and \<^verbatim>\<open>data.dataSource\<close>;
  \<open>Failure text tag msg\<close> holds \<^verbatim>\<open>text\<close>, \<^verbatim>\<open>values.error\<close> and \<^verbatim>\<open>data.error\<close>.
  Message ids and timestamps are left out.
\<close>

datatype 'p ActionResult =
  Success string nat "'p list" string
| Failure string string string

text \<open>
  The optional response callback: \<open>None\<close> is no callback, \<open>Some None\<close> one that
  returns, \<open>Some (Some e)\<close> one that throws \<open>e\<close>. The chat text handed to it is
  not modelled.
\<close>

type_synonym callback = "error option option"

text \<open>\<^verbatim>\<open>CONTRACT_ADDRESSES[network]?.mirrorNode\<close> and \<^verbatim>\<open>CONTRACT_ADDRESSES[network]?.factory\<close>.\<close>

definition CONTRACT_ADDRESSES_mirrorNode :: "string \<Rightarrow> string option" where
  "CONTRACT_ADDRESSES_mirrorNode network =
     (if network = ''mainnet'' then Some ''https://mainnet-public.mirrornode.hedera.com''
      else if network = ''testnet'' then Some ''https://testnet.mirrornode.hedera.com''
      else None)"

definition CONTRACT_ADDRESSES_factory :: "string \<Rightarrow> string option" where
  "CONTRACT_ADDRESSES_factory network =
     (if network = ''mainnet'' then Some ''0.0.3946833''
      else if network = ''testnet'' then Some ''0.0.1197038''
      else None)"

text \<open>The outermost \<^verbatim>\<open>try\<close>/\<^verbatim>\<open>catch\<close> of a handler: every error becomes a failure result.\<close>

definition catchAll :: "string \<Rightarrow> string \<Rightarrow> (error + 'p ActionResult) \<Rightarrow> error + 'p ActionResult" where
  "catchAll intro tag r =
     (case r of
        Inl e \<Rightarrow> Inr (Failure (intro @ message e) tag (message e))
      | Inr v \<Rightarrow> Inr v)"

definition runCallback :: "callback \<Rightarrow> 'a \<Rightarrow> error + 'a" where
  "runCallback cb v = (case cb of None \<Rightarrow> Inr v | Some None \<Rightarrow> Inr v | Some (Some e) \<Rightarrow> Inl e)"

text \<open>
  The body of the handler of \<^verbatim>\<open>listPoolsAction\<close>, inside its outer \<^verbatim>\<open>try\<close>. The
  inner \<^verbatim>\<open>catch\<close> logs and rethrows, so it does not show. The setting \<open>DEMO_MODE\<close> is
  never read. The result comes with the list of the URLs requested.
\<close>

definition listPoolsBody ::
  "Settings \<Rightarrow> http \<Rightarrow> (int \<Rightarrow> string) \<Rightarrow> callback
     \<Rightarrow> (error + ApiLiquidityPoolV2 ActionResult) \<times> string list" where
  "listPoolsBody s net bigNum cb =
     (let network = strOr (HEDERA_NETWORK s) ''mainnet'' in
      case (case HEDERA_MIRROR_NODE_URL s of
              Some u \<Rightarrow> (if u = [] then CONTRACT_ADDRESSES_mirrorNode network else Some u)
            | None \<Rightarrow> CONTRACT_ADDRESSES_mirrorNode network) of
        None \<Rightarrow> (Inl (Error (''Unsupported network: '' @ network)), [])
      | Some mirrorNodeUrl \<Rightarrow>
         (case CONTRACT_ADDRESSES_factory network of
            None \<Rightarrow> (Inl (Error (''Factory contract not found for network: '' @ network)), [])
          | Some factoryContract \<Rightarrow>
             (case axios_get net
                     (mirrorNodeUrl @ ''/api/v1/contracts/'' @ factoryContract @ ''/results/logs?limit=100'') [] of
                (Inl e, calls) \<Rightarrow> (Inl e, calls)
              | (Inr None, calls) \<Rightarrow>
                  (Inl (TypeError ''Cannot read properties of undefined (reading 'logs')''), calls)
              | (Inr (Some body), calls) \<Rightarrow>
                  (let logs = (case p_logs body of Some l \<Rightarrow> l | None \<Rightarrow> []);
                       (pools, calls') = parsePoolCreationEvents net bigNum logs mirrorNodeUrl calls
                   in if length pools = 0 then (Inl (Error ''No pools found in contract events''), calls')
                      else
                        (let dataSource = ''Hedera Mirror Node ('' @ mirrorNodeUrl @ '') - ''
                               @ digits10 (length pools) @ '' pools from contract events''
                         in (runCallback cb
                               (Success (''Successfully fetched '' @ digits10 (length pools)
                                           @ '' pools from SaucerSwap'')
                                  (length pools) (take 20 pools) dataSource), calls'))))))"

definition listPoolsAction ::
  "Settings \<Rightarrow> http \<Rightarrow> (int \<Rightarrow> string) \<Rightarrow> callback
     \<Rightarrow> (error + ApiLiquidityPoolV2 ActionResult) \<times> string list" where
  "listPoolsAction s net bigNum cb =
     (let (r, calls) = listPoolsBody s net bigNum cb
      in (catchAll ''Failed to fetch pools from SaucerSwap: '' ''FETCH_POOLS_FAILED'' r, calls))"

text \<open>The filter of \<^verbatim>\<open>getPoolInfoAction\<close> on the two upper-cased requested symbols.\<close>

definition matchingPools :: "ApiLiquidityPoolV2 list \<Rightarrow> string \<Rightarrow> string \<Rightarrow> ApiLiquidityPoolV2 list" where
  "matchingPools allPools normalizedToken0 normalizedToken1 =
     filter (\<lambda>pool.
        let poolToken0 = toUpperCase (symbol (tokenA pool));
            poolToken1 = toUpperCase (symbol (tokenB pool))
        in (poolToken0 = normalizedToken0 \<and> poolToken1 = normalizedToken1) \<or>
           (poolToken0 = normalizedToken1 \<and> poolToken1 = normalizedToken0)) allPools"

fun join :: "string \<Rightarrow> string list \<Rightarrow> string" where
  "join sep [] = []"
| "join sep [x] = x"
| "join sep (x # y # ys) = x @ sep @ join sep (y # ys)"

text \<open>
  The body of the handler of \<^verbatim>\<open>getPoolInfoAction\<close>. \<open>text\<close> is the message text and
  \<open>tokenPairMatch\<close> stands for the two regular expressions that extract the symbol pair
  from it (\<open>None\<close>: neither matches). The log request is not wrapped in an inner
  \<^verbatim>\<open>try\<close>: its failure goes to the outer \<^verbatim>\<open>catch\<close>.
\<close>

definition getPoolInfoBody ::
  "Settings \<Rightarrow> http \<Rightarrow> (int \<Rightarrow> string) \<Rightarrow> callback \<Rightarrow> (string \<Rightarrow> (string \<times> string) option)
     \<Rightarrow> string option \<Rightarrow> (error + ApiLiquidityPoolV2 ActionResult) \<times> string list" where
  \<open>getPoolInfoBody s net bigNum cb tokenPairMatch text =
     (case text of
        None \<Rightarrow> (Inl (Error ''No text content found in message''), [])
      | Some t \<Rightarrow>
        if t = [] then (Inl (Error ''No text content found in message''), [])
        else
        (case tokenPairMatch t of
           None \<Rightarrow> (Inl (Error ''Could not extract token pair from message. Please specify tokens like "WHBAR/USDC" or "WHBAR and USDC"''), [])
         | Some (token0Symbol, token1Symbol) \<Rightarrow>
           (let normalizedToken0 = toUpperCase token0Symbol;
                normalizedToken1 = toUpperCase token1Symbol;
                network = strOr (HEDERA_NETWORK s) ''mainnet'' in
            case (case HEDERA_MIRROR_NODE_URL s of
                    Some u \<Rightarrow> (if u = [] then CONTRACT_ADDRESSES_mirrorNode network else Some u)
                  | None \<Rightarrow> CONTRACT_ADDRESSES_mirrorNode network) of
              None \<Rightarrow> (Inl (Error (''Unsupported network: '' @ network)), [])
            | Some mirrorNodeUrl \<Rightarrow>
               (case CONTRACT_ADDRESSES_factory network of
                  None \<Rightarrow> (Inl (Error (''Factory contract not found for network: '' @ network)), [])
                | Some factoryContract \<Rightarrow>
                   (case axios_get net
                           (mirrorNodeUrl @ ''/api/v1/contracts/'' @ factoryContract @ ''/results/logs?limit=100'') [] of
                      (Inl e, calls) \<Rightarrow> (Inl e, calls)
                    | (Inr None, calls) \<Rightarrow>
                        (Inl (TypeError ''Cannot read properties of undefined (reading 'logs')''), calls)
                    | (Inr (Some body), calls) \<Rightarrow>
                        (let logs = (case p_logs body of Some l \<Rightarrow> l | None \<Rightarrow> []);
                             (allPools, calls') = parsePoolCreationEvents net bigNum logs mirrorNodeUrl calls;
                             found = matchingPools allPools normalizedToken0 normalizedToken1
                         in if length found = 0 then
                              (let availableTokens =
                                     sort (remdups (concat (map (\<lambda>p. [symbol (tokenA p), symbol (tokenB p)]) allPools)))
                               in (Inl (Error (''No pools found for '' @ normalizedToken0 @ ''/'' @ normalizedToken1
                                        @ ''. Available tokens: '' @ join '', '' (take 20 availableTokens)
                                        @ (if 20 < length availableTokens then ''...'' else []))), calls'))
                            else
                              (runCallback cb
                                 (Success (''Found '' @ digits10 (length found) @ '' pool(s) for ''
                                             @ normalizedToken0 @ ''/'' @ normalizedToken1)
                                    (length found) found
                                    (''Hedera Mirror Node ('' @ mirrorNodeUrl @ '')'')), calls')))))))\<close>

definition getPoolInfoAction ::
  "Settings \<Rightarrow> http \<Rightarrow> (int \<Rightarrow> string) \<Rightarrow> callback \<Rightarrow> (string \<Rightarrow> (string \<times> string) option)
     \<Rightarrow> string option \<Rightarrow> (error + ApiLiquidityPoolV2 ActionResult) \<times> string list" where
  "getPoolInfoAction s net bigNum cb tokenPairMatch text =
     (let (r, calls) = getPoolInfoBody s net bigNum cb tokenPairMatch text
      in (catchAll ''Failed to get pool information: '' ''GET_POOL_INFO_FAILED'' r, calls))"

text \<open>
  \<^verbatim>\<open>(pool.fee / 10_000.0).toFixed(2)\<close>, the fee tier shown by both actions, computed
  exactly. \<open>divToDouble a b\<close> is the double nearest to \<open>a / b\<close> (ties to even), as a
  pair \<open>(m, e)\<close> standing for \<open>m * 2^e\<close> with \<open>2^52 \<le> m \<le> 2^53\<close>; \<open>toFixed2\<close>
  picks the integer \<open>n\<close> with \<open>n / 100\<close> nearest to that double (the larger one on a
  tie) and prints it with two decimals. A quotient of \<open>10^21\<close> or more prints as
  \<^verbatim>\<open>`${x}`\<close> does, in exponent notation; that text is the parameter \<open>bigQuot\<close>.
\<close>

definition roundHalfEvenDiv :: "nat \<Rightarrow> nat \<Rightarrow> nat" where
  "roundHalfEvenDiv n d =
     (let q = n div d; r = n mod d
      in if d < 2 * r \<or> (2 * r = d \<and> odd q) then q + 1 else q)"

definition scaled :: "nat \<Rightarrow> nat \<Rightarrow> int \<Rightarrow> nat \<times> nat" where
  "scaled a b e = (if 0 \<le> e then (a, b * 2 ^ nat e) else (a * 2 ^ nat (- e), b))"

definition divToDouble :: "nat \<Rightarrow> nat \<Rightarrow> nat \<times> int" where
  "divToDouble a b =
     (let e0 = int (bitLength a) - int (bitLength b) - 53;
          e = (if snd (scaled a b e0) * 2 ^ 53 \<le> fst (scaled a b e0) then e0 + 1 else e0)
      in (roundHalfEvenDiv (fst (scaled a b e)) (snd (scaled a b e)), e))"

definition toFixed2 :: "nat \<times> int \<Rightarrow> string" where
  "toFixed2 x =
     (let (m, e) = x;
          n = (if 0 \<le> e then 100 * m * 2 ^ nat e
               else (200 * m + 2 ^ nat (- e)) div (2 * 2 ^ nat (- e)));
          ds = digits10 n;
          padded = replicate (3 - length ds) CHR ''0'' @ ds
      in take (length padded - 2) padded @ ''.'' @ drop (length padded - 2) padded)"

fun feeTier :: "(int \<Rightarrow> string) \<Rightarrow> jsnum \<Rightarrow> string" where
  "feeTier bigQuot (Num f) =
     (if f = 0 then ''0.00''
      else
        (let (m, e) = divToDouble (nat \<bar>f\<bar>) 10000
         in if 0 \<le> e \<and> 10 ^ 21 \<le> m * 2 ^ nat e then bigQuot f
            else (if f < 0 then ''-'' else []) @ toFixed2 (m, e)))"
| "feeTier bigQuot NaN = ''NaN''"
| "feeTier bigQuot PosInf = ''Infinity''"
| "feeTier bigQuot NegInf = ''-Infinity''"

section \<open>src/plugin.ts: the earlier plugin\<close>

text \<open>\<^verbatim>\<open>hexToHederaId\<close> of this file parses the whole string and keeps every result.\<close>

definition hexToHederaId_v1 :: "(int \<Rightarrow> string) \<Rightarrow> string \<Rightarrow> string" where
  "hexToHederaId_v1 bigNum hex = ''0.0.'' @ numberToString bigNum (parseInt hex (Some 16))"

text \<open>
  \<^verbatim>\<open>ApiToken\<close> and \<^verbatim>\<open>ApiLiquidityPoolV2\<close> as this file fills them: a field read from
  the response may be \<^verbatim>\<open>undefined\<close> (\<open>None\<close>). Left out: \<^verbatim>\<open>priceUsd\<close> (a fraction in
  the demo data), \<^verbatim>\<open>timestampSecondsLastListingChange\<close> (a \<^verbatim>\<open>Date\<close> computation),
  \<^verbatim>\<open>isFeeOnTransferToken\<close>, \<^verbatim>\<open>sentinelReport\<close> and \<^verbatim>\<open>icon\<close>.
\<close>

record ApiToken_v1 =
  decimals_v1 :: jsnum
  token_id_v1 :: "string option"
  name_v1 :: "string option"
  price_v1 :: string
  symbol_v1 :: "string option"
  dueDiligenceComplete_v1 :: bool
  description_v1 :: "string option"
  website_v1 :: "string option"
  twitterHandle_v1 :: "string option"

record ApiLiquidityPoolV2_v1 =
  pool_id_v1 :: nat
  contractId_v1 :: string
  tokenA_v1 :: ApiToken_v1
  amountA_v1 :: string
  tokenB_v1 :: ApiToken_v1
  amountB_v1 :: string
  fee_v1 :: jsnum
  sqrtRatioX96_v1 :: string
  tickCurrent_v1 :: int
  liquidity_v1 :: string

definition fetchTokenInfo_v1 ::
  "http \<Rightarrow> (int \<Rightarrow> string) \<Rightarrow> string \<Rightarrow> string \<Rightarrow> string list \<Rightarrow> ApiToken_v1 option \<times> string list" where
  "fetchTokenInfo_v1 net bigNum tokenId mirrorNodeUrl calls =
     (case axios_get net (mirrorNodeUrl @ ''/api/v1/tokens/'' @ tokenId) calls of
        (Inl e, calls') \<Rightarrow> (None, calls')
      | (Inr None, calls') \<Rightarrow> (None, calls')
      | (Inr (Some token), calls') \<Rightarrow>
          (Some \<lparr> decimals_v1 = parseIntOpt (map_option (\<lambda>d. numberToString bigNum (Num d)) (p_decimals token)),
                  token_id_v1 = p_token_id token,
                  name_v1 = (case p_name token of
                               Some n \<Rightarrow> (if n = [] then p_symbol token else Some n)
                             | None \<Rightarrow> p_symbol token),
                  price_v1 = ''0'',
                  symbol_v1 = p_symbol token,
                  dueDiligenceComplete_v1 = True,
                  description_v1 =
                    Some (strOr (p_memo token)
                            ((case p_name token of Some n \<Rightarrow> n | None \<Rightarrow> ''undefined'') @ '' token on Hedera'')),
                  website_v1 = None,
                  twitterHandle_v1 = None \<rparr>, calls'))"

definition processLog_v1 ::
  "http \<Rightarrow> (int \<Rightarrow> string) \<Rightarrow> string \<Rightarrow> ApiLiquidityPoolV2_v1 list \<times> string list \<Rightarrow> RawLog
     \<Rightarrow> ApiLiquidityPoolV2_v1 list \<times> string list" where
  "processLog_v1 net bigNum mirrorNodeUrl st log =
     (let (pools, calls) = st in
      if isPoolCreation log then
        (let ts = (case topics log of Some ts \<Rightarrow> ts | None \<Rightarrow> []);
             token0Id = hexToHederaId_v1 bigNum (ts ! 1);
             token1Id = hexToHederaId_v1 bigNum (ts ! 2);
             fee = parseInt (ts ! 3) (Some 16);
             poolAddress = slice 66 106 (data log);
             poolId = hexToHederaId_v1 bigNum (''0x'' @ poolAddress);
             (tokenA, calls1) = fetchTokenInfo_v1 net bigNum token0Id mirrorNodeUrl calls;
             (tokenB, calls2) = fetchTokenInfo_v1 net bigNum token1Id mirrorNodeUrl calls1
         in case (tokenA, tokenB) of
              (Some a, Some b) \<Rightarrow>
                (pools @ [\<lparr> pool_id_v1 = length pools + 1,
                             contractId_v1 = poolId,
                             tokenA_v1 = a,
                             amountA_v1 = ''0'',
                             tokenB_v1 = b,
                             amountB_v1 = ''0'',
                             fee_v1 = fee,
                             sqrtRatioX96_v1 = ''79228162514264337593543950336'',
                             tickCurrent_v1 = 0,
                             liquidity_v1 = ''0'' \<rparr>], calls2)
            | _ \<Rightarrow> (pools, calls2))
      else (pools, calls))"

fun parseLoop_v1 ::
  "http \<Rightarrow> (int \<Rightarrow> string) \<Rightarrow> string \<Rightarrow> RawLog list \<Rightarrow> ApiLiquidityPoolV2_v1 list \<times> string list
     \<Rightarrow> ApiLiquidityPoolV2_v1 list \<times> string list" where
  "parseLoop_v1 net bigNum mirrorNodeUrl [] st = st"
| "parseLoop_v1 net bigNum mirrorNodeUrl (log # logs) st =
     parseLoop_v1 net bigNum mirrorNodeUrl logs (processLog_v1 net bigNum mirrorNodeUrl st log)"

definition parsePoolCreationEvents_v1 ::
  "http \<Rightarrow> (int \<Rightarrow> string) \<Rightarrow> RawLog list \<Rightarrow> string \<Rightarrow> string list
     \<Rightarrow> ApiLiquidityPoolV2_v1 list \<times> string list" where
  "parsePoolCreationEvents_v1 net bigNum logs mirrorNodeUrl calls =
     parseLoop_v1 net bigNum mirrorNodeUrl logs ([], calls)"

definition mockPoolsData :: "ApiLiquidityPoolV2_v1 list" where
  "mockPoolsData =
     [\<lparr> pool_id_v1 = 1,
        contractId_v1 = ''0.0.123456'',
        tokenA_v1 = \<lparr> decimals_v1 = Num 8,
                      token_id_v1 = Some ''0.0.456789'',
                      name_v1 = Some ''Hedera Hashgraph'',
                      price_v1 = ''100000000'',
                      symbol_v1 = Some ''HBAR'',
                      dueDiligenceComplete_v1 = True,
                      description_v1 = Some ''Native token of Hedera network'',
                      website_v1 = Some ''https://hedera.com'',
                      twitterHandle_v1 = Some ''hedera'' \<rparr>,
        amountA_v1 = ''1000000000000'',
        tokenB_v1 = \<lparr> decimals_v1 = Num 6,
                      token_id_v1 = Some ''0.0.731861'',
                      name_v1 = Some ''SaucerSwap'',
                      price_v1 = ''36806544'',
                      symbol_v1 = Some ''SAUCE'',
                      dueDiligenceComplete_v1 = True,
                      description_v1 = Some ''SaucerSwap governance token'',
                      website_v1 = Some ''https://saucerswap.finance'',
                      twitterHandle_v1 = Some ''SaucerSwapLabs'' \<rparr>,
        amountB_v1 = ''500000000000'',
        fee_v1 = Num 3000,
        sqrtRatioX96_v1 = ''79228162514264337593543950336'',
        tickCurrent_v1 = 0,
        liquidity_v1 = ''1000000000000000000'' \<rparr>]"

definition getHederaMirrorNodeUrl :: "string \<Rightarrow> string option \<Rightarrow> string" where
  "getHederaMirrorNodeUrl network baseUrl =
     (case (case baseUrl of
              Some u \<Rightarrow> (if u \<noteq> [] \<and> u \<noteq> ''https://mainnet.mirrornode.hedera.com'' then Some u else None)
            | None \<Rightarrow> None) of
        Some u \<Rightarrow> u
      | None \<Rightarrow>
          (if network = ''testnet'' then ''https://testnet.mirrornode.hedera.com''
           else if network = ''previewnet'' then ''https://previewnet.mirrornode.hedera.com''
           else ''https://mainnet.mirrornode.hedera.com''))"

text \<open>
  \<^verbatim>\<open>SAUCERSWAP_V2_FACTORY_CONTRACTS[network]\<close>; \<open>None\<close> is \<^verbatim>\<open>null\<close> or \<^verbatim>\<open>undefined\<close>.
  A network named like a property that every object inherits (\<^verbatim>\<open>toString\<close>, say) is
  not modelled.
\<close>

definition SAUCERSWAP_V2_FACTORY_CONTRACTS :: "string \<Rightarrow> string option" where
  "SAUCERSWAP_V2_FACTORY_CONTRACTS network =
     (if network = ''mainnet'' then Some ''0.0.3946833''
      else if network = ''testnet'' then Some ''0.0.1197038''
      else None)"

text \<open>
  The part of the handler of \<^verbatim>\<open>fetchAllPoolsAction\<close> that chooses the pools and their
  data-source label; its inner \<^verbatim>\<open>catch\<close> turns every failure of the log request
  (a rejected request, a response without a body) into the demo data.
\<close>

definition choosePools ::
  "Settings \<Rightarrow> http \<Rightarrow> (int \<Rightarrow> string) \<Rightarrow> (ApiLiquidityPoolV2_v1 list \<times> string) \<times> string list" where
  "choosePools s net bigNum =
     (let network = strOr (HEDERA_NETWORK s) ''mainnet'';
          mirrorNodeUrl = HEDERA_MIRROR_NODE_URL s;
          demoMode = (DEMO_MODE s = Some ''true'')
      in if demoMode then ((mockPoolsData, ''Demo Mode (Mock Data)''), [])
         else
           (let hederaApiUrl = getHederaMirrorNodeUrl network mirrorNodeUrl in
            case SAUCERSWAP_V2_FACTORY_CONTRACTS network of
              None \<Rightarrow> ((mockPoolsData, ''Demo Mode ('' @ network @ '' not supported)''), [])
            | Some factoryContract \<Rightarrow>
               (case axios_get net
                       (hederaApiUrl @ ''/api/v1/contracts/'' @ factoryContract @ ''/results/logs?limit=20'') [] of
                  (Inr (Some body), calls) \<Rightarrow>
                    (let logs = (case p_logs body of Some l \<Rightarrow> l | None \<Rightarrow> []);
                         (pools, calls') = parsePoolCreationEvents_v1 net bigNum logs hederaApiUrl calls
                     in if length pools = 0
                        then ((mockPoolsData, ''Hedera Mirror Node ('' @ hederaApiUrl
                                 @ '') - No pools found, using mock data''), calls')
                        else ((pools, ''Hedera Mirror Node ('' @ hederaApiUrl @ '') - ''
                                 @ digits10 (length pools) @ '' pools from contract events''), calls'))
                | (_, calls) \<Rightarrow>
                    ((mockPoolsData, ''Hedera Mirror Node ('' @ hederaApiUrl
                        @ '') - Error fetching data, using mock data''), calls))))"

text \<open>
  The handler of \<^verbatim>\<open>fetchAllPoolsAction\<close>. The callback is called without a test for
  its presence, so a missing one throws; the outer \<^verbatim>\<open>catch\<close> answers every error with
  a failure result.
\<close>

definition fetchAllPoolsAction ::
  "Settings \<Rightarrow> http \<Rightarrow> (int \<Rightarrow> string) \<Rightarrow> callback
     \<Rightarrow> (error + ApiLiquidityPoolV2_v1 ActionResult) \<times> string list" where
  "fetchAllPoolsAction s net bigNum cb =
     (let ((pools, dataSource), calls) = choosePools s net bigNum;
          result = Success (''Successfully fetched '' @ digits10 (length pools) @ '' pools from SaucerSwap'')
                     (length pools) (take 10 pools) dataSource
      in (catchAll ''Failed to fetch pools from SaucerSwap: '' ''FETCH_POOLS_FAILED''
            (case cb of
               None \<Rightarrow> Inl (TypeError ''callback is not a function'')
             | Some None \<Rightarrow> Inr result
             | Some (Some e) \<Rightarrow> Inl e), calls))"

section \<open>Notions used to state the properties\<close>

text \<open>A hexadecimal digit, of either case.\<close>

definition isHexDigit :: "char \<Rightarrow> bool" where
  "isHexDigit c = (c \<in> set ''0123456789abcdefABCDEF'')"

text \<open>A string with its \<^verbatim>\<open>0x\<close> prefix, if it has one, removed.\<close>

definition withoutPrefix0x :: "string \<Rightarrow> string" where
  "withoutPrefix0x s = (if prefix ''0x'' s then drop 2 s else s)"

text \<open>A 32-byte topic: 64 hexadecimal digits, with or without \<^verbatim>\<open>0x\<close> before them.\<close>

definition isTopic32 :: "string \<Rightarrow> bool" where
  "isTopic32 t = (length (withoutPrefix0x t) = 64 \<and> list_all isHexDigit (withoutPrefix0x t))"

text \<open>The unsigned integer written by the last 8 hexadecimal digits (4 bytes) of a string.\<close>

definition entityNumber :: "string \<Rightarrow> nat" where
  "entityNumber t = digitsValue 16 (sliceLast 8 t)"

text \<open>The records an action hands back: those of a success result, none otherwise.\<close>

definition resultPools :: "(error + 'p ActionResult) \<Rightarrow> 'p list" where
  "resultPools r = (case r of Inr (Success t n ps ds) \<Rightarrow> ps | _ \<Rightarrow> [])"

text \<open>
  A record \<open>p\<close> is resolved from the entry \<open>log\<close> at the request history \<open>calls\<close>
  when the entry is a pool-creation entry and the two token requests made for it at that
  point both succeed, giving the two tokens of \<open>p\<close>.
\<close>

definition resolvedFrom ::
  "http \<Rightarrow> (int \<Rightarrow> string) \<Rightarrow> string \<Rightarrow> RawLog \<Rightarrow> string list \<Rightarrow> ApiLiquidityPoolV2 \<Rightarrow> bool" where
  "resolvedFrom net bigNum url log calls p =
     (isPoolCreation log \<and>
      (case topics log of
         None \<Rightarrow> False
       | Some ts \<Rightarrow>
           fst (fetchTokenInfo net (hexToHederaId bigNum (ts ! 1)) url calls) = Some (tokenA p)
           \<and> fst (fetchTokenInfo net (hexToHederaId bigNum (ts ! 2)) url
                    (snd (fetchTokenInfo net (hexToHederaId bigNum (ts ! 1)) url calls))) = Some (tokenB p)))"

definition resolvedFrom_v1 ::
  "http \<Rightarrow> (int \<Rightarrow> string) \<Rightarrow> string \<Rightarrow> RawLog \<Rightarrow> string list \<Rightarrow> ApiLiquidityPoolV2_v1 \<Rightarrow> bool" where
  "resolvedFrom_v1 net bigNum url log calls p =
     (isPoolCreation log \<and>
      (case topics log of
         None \<Rightarrow> False
       | Some ts \<Rightarrow>
           fst (fetchTokenInfo_v1 net bigNum (hexToHederaId_v1 bigNum (ts ! 1)) url calls) = Some (tokenA_v1 p)
           \<and> fst (fetchTokenInfo_v1 net bigNum (hexToHederaId_v1 bigNum (ts ! 2)) url
                    (snd (fetchTokenInfo_v1 net bigNum (hexToHederaId_v1 bigNum (ts ! 1)) url calls))) = Some (tokenB_v1 p)))"

text \<open>A log request that failed: it was rejected, or its response has no body.\<close>

definition fetchFailed :: "error + payload option \<Rightarrow> bool" where
  "fetchFailed r = (case r of Inr (Some body) \<Rightarrow> False | _ \<Rightarrow> True)"

section \<open>Concrete inputs\<close>

text \<open>
  The mocked responses of \<^verbatim>\<open>__tests__/integration.test.ts\<close>: one pool-creation log,
  the metadata of its two tokens, and \<^verbatim>\<open>axios.get\<close> answering with them in that order.
  \<open>mockPool\<close> is the record the pipeline builds from them.
\<close>

definition noBigNum :: "int \<Rightarrow> string" where
  "noBigNum v = []"

definition mockLog :: RawLog where
  "mockLog = \<lparr> topics = Some [''0x783cca1c0412dd0d695e784568c96da2e9c22ff989357a2e8b1d9b2b4e6b7118'',
                               ''0x0000000000000000000000000000000000000000000000000000000000001234'',
                               ''0x0000000000000000000000000000000000000000000000000000000000005678'',
                               ''0x0000000000000000000000000000000000000000000000000000000000000bb8''],
                data = ''0x000000000000000000000000000000000000000000000000000000000000002000000000000000000000000000000000000000000000000000000000000000409abc123400000000000000000000000000000000000000000000000000000000'' \<rparr>"

definition mockToken0Response :: payload where
  "mockToken0Response = \<lparr> p_logs = None, p_decimals = Some 8, p_name = Some ''Wrapped HBAR'',
                            p_symbol = Some ''WHBAR'', p_token_id = None, p_memo = None \<rparr>"

definition mockToken1Response :: payload where
  "mockToken1Response = \<lparr> p_logs = None, p_decimals = Some 6, p_name = Some ''USD Coin'',
                            p_symbol = Some ''USDC'', p_token_id = None, p_memo = None \<rparr>"

definition mockLogsResponse :: payload where
  "mockLogsResponse = \<lparr> p_logs = Some [mockLog], p_decimals = None, p_name = None,
                          p_symbol = None, p_token_id = None, p_memo = None \<rparr>"

definition mockAxios :: http where
  "mockAxios k url =
     (if k = 0 then Inr (Some mockLogsResponse)
      else if k = 1 then Inr (Some mockToken0Response)
      else if k = 2 then Inr (Some mockToken1Response)
      else Inl (Error ''no response mocked''))"

definition mockPool :: ApiLiquidityPoolV2 where
  "mockPool =
     \<lparr> pool_id = 1, contractId = ''0.0.1026796'',
       tokenA = \<lparr> decimals = 8, token_id = ''0.0.4660'', name = ''Wrapped HBAR'', price = ''0'', priceUsd = 0,
                  symbol = ''WHBAR'', dueDiligenceComplete = False, isFeeOnTransferToken = False,
                  timestampSecondsLastListingChange = 0, description = None, website = None,
                  twitterHandle = None, sentinelReport = None \<rparr>,
       amountA = ''0'',
       tokenB = \<lparr> decimals = 6, token_id = ''0.0.22136'', name = ''USD Coin'', price = ''0'', priceUsd = 0,
                  symbol = ''USDC'', dueDiligenceComplete = False, isFeeOnTransferToken = False,
                  timestampSecondsLastListingChange = 0, description = None, website = None,
                  twitterHandle = None, sentinelReport = None \<rparr>,
       amountB = ''0'', fee = Num 3000, sqrtRatioX96 = ''79228162514264337593543950336'',
       tickCurrent = 0, liquidity = ''Available'' \<rparr>"

text \<open>Further entries: one of another event, one whose first token topic is zero, one
  naming the same token twice; a network that is down.\<close>

definition otherLog :: RawLog where
  "otherLog = \<lparr> topics = Some [''0xddf252ad1be2c89b69c2b068fc378daa952ba7f163c4a11628f55a4df523b3ef'',
                                ''0x0000000000000000000000000000000000000000000000000000000000001234'',
                                ''0x0000000000000000000000000000000000000000000000000000000000005678'',
                                ''0x0000000000000000000000000000000000000000000000000000000000000bb8''],
                 data = ''0x'' \<rparr>"

definition zeroTokenLog :: RawLog where
  "zeroTokenLog = \<lparr> topics = Some [''0x783cca1c0412dd0d695e784568c96da2e9c22ff989357a2e8b1d9b2b4e6b7118'',
                                    ''0x0000000000000000000000000000000000000000000000000000000000000000'',
                                    ''0x0000000000000000000000000000000000000000000000000000000000005678'',
                                    ''0x0000000000000000000000000000000000000000000000000000000000000bb8''],
                     data = ''0x'' \<rparr>"

definition sameTokenLog :: RawLog where
  "sameTokenLog = \<lparr> topics = Some [''0x783cca1c0412dd0d695e784568c96da2e9c22ff989357a2e8b1d9b2b4e6b7118'',
                                    ''0x0000000000000000000000000000000000000000000000000000000000001234'',
                                    ''0x0000000000000000000000000000000000000000000000000000000000001234'',
                                    ''0x0000000000000000000000000000000000000000000000000000000000000bb8''],
                     data = ''0x'' \<rparr>"

definition downAxios :: http where
  "downAxios k url = Inl (Error ''Mirror Node API error'')"

text \<open>The settings of the runtime in \<^verbatim>\<open>__tests__/integration.test.ts\<close>, and the same
  with the demo flag set.\<close>

definition testnetSettings :: Settings where
  "testnetSettings = \<lparr> HEDERA_NETWORK = Some ''testnet'',
                         HEDERA_MIRROR_NODE_URL = Some ''https://testnet.mirrornode.hedera.com'',
                         DEMO_MODE = None \<rparr>"

definition demoSettings :: Settings where
  "demoSettings = \<lparr> HEDERA_NETWORK = Some ''testnet'',
                      HEDERA_MIRROR_NODE_URL = Some ''https://testnet.mirrornode.hedera.com'',
                      DEMO_MODE = Some ''true'' \<rparr>"

text \<open>Two stand-ins for the regular expressions of \<^verbatim>\<open>getPoolInfoAction\<close>, reading the
  same pair in either order.\<close>

definition matchWhbarUsdc :: "string \<Rightarrow> (string \<times> string) option" where
  "matchWhbarUsdc t = Some (''whbar'', ''usdc'')"

definition matchUsdcWhbar :: "string \<Rightarrow> (string \<times> string) option" where
  "matchUsdcWhbar t = Some (''usdc'', ''whbar'')"



text \<open>The record \<^verbatim>\<open>src/plugin.ts\<close> builds from the mocked responses.\<close>

definition mockPool_v1 :: ApiLiquidityPoolV2_v1 where
  "mockPool_v1 =
     \<lparr> pool_id_v1 = 1, contractId_v1 = ''0.0.0'',
       tokenA_v1 = \<lparr> decimals_v1 = Num 8, token_id_v1 = None, name_v1 = Some ''Wrapped HBAR'',
                     price_v1 = ''0'', symbol_v1 = Some ''WHBAR'', dueDiligenceComplete_v1 = True,
                     description_v1 = Some ''Wrapped HBAR token on Hedera'',
                     website_v1 = None, twitterHandle_v1 = None \<rparr>,
       amountA_v1 = ''0'',
       tokenB_v1 = \<lparr> decimals_v1 = Num 6, token_id_v1 = None, name_v1 = Some ''USD Coin'',
                     price_v1 = ''0'', symbol_v1 = Some ''USDC'', dueDiligenceComplete_v1 = True,
                     description_v1 = Some ''USD Coin token on Hedera'',
                     website_v1 = None, twitterHandle_v1 = None \<rparr>,
       amountB_v1 = ''0'', fee_v1 = Num 3000, sqrtRatioX96_v1 = ''79228162514264337593543950336'',
       tickCurrent_v1 = 0, liquidity_v1 = ''0'' \<rparr>"

section \<open>Auxiliary facts about the primitives\<close>

lemma replaceFirst_cases:
  "replaceFirst pat [] s = s \<or> (\<exists>a b. s = a @ pat @ b \<and> replaceFirst pat [] s = a @ b)"
proof (induction s)
  case Nil
  then show ?case by simp
next
  case (Cons c cs)
  show ?case
  proof (cases "prefix pat (c # cs)")
    case True
    then obtain b where b: "c # cs = pat @ b" by (auto simp: prefix_def)
    have "replaceFirst pat [] (c # cs) = drop (length pat) (c # cs)" using True by simp
    also have "\<dots> = b" unfolding b by simp
    finally have "c # cs = [] @ pat @ b \<and> replaceFirst pat [] (c # cs) = [] @ b" using b by simp
    then show ?thesis by blast
  next
    case False
    from Cons.IH show ?thesis
    proof
      assume "replaceFirst pat [] cs = cs"
      then show ?thesis using False by simp
    next
      assume "\<exists>a b. cs = a @ pat @ b \<and> replaceFirst pat [] cs = a @ b"
      then obtain a b where "cs = a @ pat @ b" "replaceFirst pat [] cs = a @ b" by blast
      then have "c # cs = (c # a) @ pat @ b \<and> replaceFirst pat [] (c # cs) = (c # a) @ b"
        using False by simp
      then show ?thesis by blast
    qed
  qed
qed

lemma digitVal_x: "digitVal CHR ''x'' = Some 33"
  by (simp add: digitVal_def)

lemma not_hex_x: "\<not> isRadixDigit 16 CHR ''x''"
  by (simp add: isRadixDigit_def digitVal_x)

lemma sliceLast_append_long: "n \<le> length b \<Longrightarrow> sliceLast n (a @ b) = sliceLast n b"
  by (simp add: sliceLast_def)

lemma sliceLast_0x:
  assumes "8 \<le> length s" and "\<forall>c\<in>set (sliceLast 8 s). isRadixDigit 16 c"
  shows "sliceLast 8 (replaceFirst ''0x'' [] s) = sliceLast 8 s"
proof -
  from replaceFirst_cases[of "''0x''" s] show ?thesis
  proof
    assume "replaceFirst ''0x'' [] s = s" then show ?thesis by simp
  next
    assume "\<exists>a b. s = a @ ''0x'' @ b \<and> replaceFirst ''0x'' [] s = a @ b"
    then obtain a b where s: "s = a @ ''0x'' @ b" and r: "replaceFirst ''0x'' [] s = a @ b" by blast
    have "8 \<le> length b"
    proof (rule ccontr)
      assume nb: "\<not> 8 \<le> length b"
      have x: "s ! (Suc (length a)) = CHR ''x''" by (simp add: s nth_append)
      have k: "length s - 8 \<le> Suc (length a)" using nb by (simp add: s)
      have l: "Suc (length a) < length s" by (simp add: s)
      have "drop (length s - 8) s ! (Suc (length a) - (length s - 8)) = s ! (Suc (length a))"
        using k l by simp
      moreover have "Suc (length a) - (length s - 8) < length (drop (length s - 8) s)"
        using k l by simp
      ultimately have "s ! (Suc (length a)) \<in> set (drop (length s - 8) s)"
        by (metis nth_mem)
      then have "CHR ''x'' \<in> set (sliceLast 8 s)" using x by (simp add: sliceLast_def)
      with assms(2) not_hex_x show False by blast
    qed
    then have "sliceLast 8 (a @ b) = sliceLast 8 b" "sliceLast 8 ((a @ ''0x'') @ b) = sliceLast 8 b"
      by (rule sliceLast_append_long)+
    moreover have "sliceLast 8 (replaceFirst ''0x'' [] s) = sliceLast 8 (a @ b)" by (simp only: r)
    moreover have "sliceLast 8 s = sliceLast 8 ((a @ ''0x'') @ b)" by (simp add: s)
    ultimately show ?thesis by (simp only:)
  qed
qed


lemma hex_not_special:
  assumes "isRadixDigit 16 c"
  shows "\<not> isWhiteSpace c" "c \<noteq> CHR ''+''" "c \<noteq> CHR ''-''" "c \<noteq> CHR ''x''" "c \<noteq> CHR ''X''"
  using assms by (auto simp: isWhiteSpace_def isRadixDigit_def digitVal_def)

lemma toNumber_small: "\<bar>v\<bar> < 2 ^ 53 \<Longrightarrow> toNumber v = Num v"
  by (simp add: toNumber_def Let_def nat_less_iff)

lemma foldl_digits_bound:
  assumes "\<forall>c\<in>set Z. isRadixDigit R c"
  shows "foldl (\<lambda>acc c. acc * R + (case digitVal c of Some d \<Rightarrow> d | None \<Rightarrow> 0)) a Z + 1 \<le> (a + 1) * R ^ length Z"
  using assms
proof (induction Z arbitrary: a)
  case Nil
  then show ?case by simp
next
  case (Cons c Z)
  let ?d = "case digitVal c of Some d \<Rightarrow> d | None \<Rightarrow> 0"
  have d: "?d + 1 \<le> R" using Cons.prems by (auto simp: isRadixDigit_def split: option.splits)
  have "foldl (\<lambda>acc c. acc * R + (case digitVal c of Some d \<Rightarrow> d | None \<Rightarrow> 0)) (a * R + ?d) Z + 1
          \<le> (a * R + ?d + 1) * R ^ length Z"
    using Cons.IH[of "a * R + ?d"] Cons.prems by simp
  also have "\<dots> \<le> (a * R + R) * R ^ length Z"
    using d by (intro mult_le_mono1) simp
  also have "\<dots> = (a + 1) * R ^ length (c # Z)" by (simp add: algebra_simps)
  finally show ?case by simp
qed

lemma digitsValue_bound:
  "\<forall>c\<in>set Z. isRadixDigit R c \<Longrightarrow> digitsValue R Z < R ^ length Z"
  using foldl_digits_bound[of Z R 0] by (simp add: digitsValue_def)

lemma parseInt_hex:
  assumes "Z \<noteq> []" and "\<forall>c\<in>set Z. isRadixDigit 16 c"
  shows "parseInt Z (Some 16) = toNumber (int (digitsValue 16 Z))"
proof -
  obtain c cs where Z: "Z = c # cs" using assms(1) by (cases Z) auto
  have c: "isRadixDigit 16 c" using assms(2) Z by simp
  have s1: "dropWhile isWhiteSpace Z = Z" using hex_not_special(1)[OF c] Z by simp
  have sign: "take 1 Z \<noteq> ''+''" "take 1 Z \<noteq> ''-''"
    using hex_not_special(2,3)[OF c] Z by simp_all
  have pre: "take 2 Z \<noteq> ''0x''" "take 2 Z \<noteq> ''0X''"
  proof -
    show "take 2 Z \<noteq> ''0x''"
    proof (cases cs)
      case Nil then show ?thesis using Z by simp
    next
      case (Cons d ds)
      then have "isRadixDigit 16 d" using assms(2) Z by simp
      from hex_not_special(4)[OF this] show ?thesis using Z Cons by simp
    qed
    show "take 2 Z \<noteq> ''0X''"
    proof (cases cs)
      case Nil then show ?thesis using Z by simp
    next
      case (Cons d ds)
      then have "isRadixDigit 16 d" using assms(2) Z by simp
      from hex_not_special(5)[OF this] show ?thesis using Z Cons by simp
    qed
  qed
  have tw: "takeWhile (isRadixDigit 16) Z = Z" using assms(2) by (simp add: takeWhile_eq_all_conv)
  show ?thesis
    unfolding parseInt_def Let_def s1 using sign pre assms(1) by (simp add: tw)
qed

lemma parseInt_hex8:
  assumes "length Z = 8" and "\<forall>c\<in>set Z. isRadixDigit 16 c"
  shows "parseInt Z (Some 16) = Num (int (digitsValue 16 Z))"
proof -
  have "Z \<noteq> []" using assms(1) by auto
  moreover have "digitsValue 16 Z < 16 ^ 8" using digitsValue_bound[OF assms(2)] assms(1) by simp
  then have "\<bar>int (digitsValue 16 Z)\<bar> < 2 ^ 53" by simp
  ultimately show ?thesis using parseInt_hex[OF _ assms(2)] toNumber_small by simp
qed

lemma hexToHederaId_hex:
  assumes "8 \<le> length s" and "\<forall>c\<in>set (sliceLast 8 s). isRadixDigit 16 c"
  shows "hexToHederaId bigNum s =
           (let n = digitsValue 16 (sliceLast 8 s)
            in if n = 0 \<or> 100000000 < n then ''0.0.0'' else ''0.0.'' @ digits10 n)"
proof -
  have len: "length (sliceLast 8 s) = 8" using assms(1) by (simp add: sliceLast_def)
  have p: "parseInt (sliceLast 8 s) (Some 16) = Num (int (digitsValue 16 (sliceLast 8 s)))"
    by (rule parseInt_hex8[OF len assms(2)])
  show ?thesis
    unfolding hexToHederaId_def Let_def sliceLast_0x[OF assms] p
    by simp
qed

lemma indexOf_Some: "indexOf c xs = Some i \<Longrightarrow> i < length xs \<and> xs ! i = c"
  by (induction xs arbitrary: i) (auto split: if_splits)

lemma nth_in_take: "d < k \<Longrightarrow> k \<le> length xs \<Longrightarrow> xs ! d \<in> set (take k xs)"
proof -
  assume a: "d < k" "k \<le> length xs"
  then have "take k xs ! d = xs ! d" "d < length (take k xs)" by simp_all
  then show ?thesis by (metis nth_mem)
qed


lemma hexDigits_radix: "\<forall>c\<in>set ''0123456789abcdefABCDEF''. isRadixDigit 16 c"
  by (simp add: isRadixDigit_def digitVal_def)

lemma isHexDigit_radix: "isHexDigit c \<Longrightarrow> isRadixDigit 16 c"
  unfolding isHexDigit_def using hexDigits_radix by blast

lemma radix_isHexDigit:
  assumes "isRadixDigit 16 c" shows "isHexDigit c"
proof (cases "indexOf c ''0123456789abcdefghijklmnopqrstuvwxyz''")
  case (Some d)
  have "digitVal c = Some d" unfolding digitVal_def Some by simp
  then have "d < 16" using assms unfolding isRadixDigit_def by simp
  then have "''0123456789abcdefghijklmnopqrstuvwxyz'' ! d \<in> set (take 16 ''0123456789abcdefghijklmnopqrstuvwxyz'')"
    by (rule nth_in_take) simp
  moreover have "''0123456789abcdefghijklmnopqrstuvwxyz'' ! d = c" using indexOf_Some[OF Some] by blast
  ultimately have "c \<in> set (take 16 ''0123456789abcdefghijklmnopqrstuvwxyz'')" by (simp only:)
  moreover have "take 16 ''0123456789abcdefghijklmnopqrstuvwxyz'' = ''0123456789abcdef''" by simp
  ultimately have "c \<in> set ''0123456789abcdef''" by (simp only:)
  moreover have "set ''0123456789abcdef'' \<subseteq> set ''0123456789abcdefABCDEF''" by simp
  ultimately show ?thesis unfolding isHexDigit_def by blast
next
  case None
  have dv: "digitVal c = map_option (\<lambda>d. d + 10) (indexOf c ''ABCDEFGHIJKLMNOPQRSTUVWXYZ'')"
    unfolding digitVal_def None by simp
  obtain d where d: "indexOf c ''ABCDEFGHIJKLMNOPQRSTUVWXYZ'' = Some d"
    using assms unfolding isRadixDigit_def dv by (cases "indexOf c ''ABCDEFGHIJKLMNOPQRSTUVWXYZ''") simp_all
  have "d + 10 < 16" using assms unfolding isRadixDigit_def dv d by simp
  then have "d < 6" by simp
  then have "''ABCDEFGHIJKLMNOPQRSTUVWXYZ'' ! d \<in> set (take 6 ''ABCDEFGHIJKLMNOPQRSTUVWXYZ'')"
    by (rule nth_in_take) simp
  moreover have "''ABCDEFGHIJKLMNOPQRSTUVWXYZ'' ! d = c" using indexOf_Some[OF d] by blast
  ultimately have "c \<in> set (take 6 ''ABCDEFGHIJKLMNOPQRSTUVWXYZ'')" by (simp only:)
  moreover have "take 6 ''ABCDEFGHIJKLMNOPQRSTUVWXYZ'' = ''ABCDEF''" by simp
  ultimately have "c \<in> set ''ABCDEF''" by (simp only:)
  moreover have "set ''ABCDEF'' \<subseteq> set ''0123456789abcdefABCDEF''" by simp
  ultimately show ?thesis unfolding isHexDigit_def by blast
qed

lemma digitChar_zero_iff:
  assumes "n < 10" shows "digitChar n = CHR ''0'' \<longleftrightarrow> n = 0"
proof (cases n)
  case 0
  then show ?thesis by (simp add: digitChar_def)
next
  case (Suc m)
  then have "m < length ''123456789''" using assms by simp
  then have "''123456789'' ! m \<in> set ''123456789''" by (rule nth_mem)
  moreover have "digitChar n = ''123456789'' ! m" by (simp add: digitChar_def Suc)
  moreover have "CHR ''0'' \<notin> set ''123456789''" by simp
  ultimately have "digitChar n \<noteq> CHR ''0''" by metis
  then show ?thesis using Suc by simp
qed

lemma digits10_nonempty: "digits10 n \<noteq> []"
  by (subst digits10.simps) simp

lemma digits10_zero_iff: "digits10 n = ''0'' \<longleftrightarrow> n = 0"
proof (cases "n < 10")
  case True
  then show ?thesis using digitChar_zero_iff[OF True] by (subst digits10.simps) simp
next
  case False
  have "digits10 n = digits10 (n div 10) @ [digitChar (n mod 10)]"
    using False by (subst digits10.simps) simp
  then have "length (digits10 n) \<noteq> 1" using digits10_nonempty[of "n div 10"] by simp
  then show ?thesis using False by auto
qed

lemma sliceLast_withoutPrefix:
  assumes "8 \<le> length (withoutPrefix0x hex)"
  shows "sliceLast 8 hex = sliceLast 8 (withoutPrefix0x hex)" and "8 \<le> length hex"
proof -
  show "sliceLast 8 hex = sliceLast 8 (withoutPrefix0x hex)"
  proof (cases "prefix ''0x'' hex")
    case True
    then obtain b where b: "hex = ''0x'' @ b" by (auto simp: prefix_def)
    then have "withoutPrefix0x hex = b" by (simp add: withoutPrefix0x_def)
    then show ?thesis using assms sliceLast_append_long[of 8 b "''0x''"] b by simp
  next
    case False
    then show ?thesis by (simp add: withoutPrefix0x_def)
  qed
  show "8 \<le> length hex" using assms by (simp add: withoutPrefix0x_def split: if_splits)
qed

lemma hexToHederaId_entityNumber:
  assumes "8 \<le> length (withoutPrefix0x hex)"
    and "\<forall>c\<in>set (sliceLast 8 (withoutPrefix0x hex)). isHexDigit c"
  shows "hexToHederaId bigNum hex =
           (if entityNumber hex = 0 \<or> 100000000 < entityNumber hex then ''0.0.0''
            else ''0.0.'' @ digits10 (entityNumber hex))"
proof -
  note sl = sliceLast_withoutPrefix[OF assms(1)]
  have "\<forall>c\<in>set (sliceLast 8 hex). isRadixDigit 16 c"
    using assms(2) isHexDigit_radix unfolding sl(1) by blast
  from hexToHederaId_hex[OF sl(2) this] show ?thesis
    by (simp add: entityNumber_def Let_def)
qed

subsection \<open>The loop over the log entries\<close>

lemma parseLoop_append:
  "parseLoop net bigNum url (xs @ ys) st = parseLoop net bigNum url ys (parseLoop net bigNum url xs st)"
  by (induction xs arbitrary: st) simp_all

lemma parseLoop_v1_append:
  "parseLoop_v1 net bigNum url (xs @ ys) st = parseLoop_v1 net bigNum url ys (parseLoop_v1 net bigNum url xs st)"
  by (induction xs arbitrary: st) simp_all

lemma processLog_other: "\<not> isPoolCreation log \<Longrightarrow> processLog net bigNum url st log = st"
  by (simp add: processLog_def split: prod.splits)

lemma processLog_v1_other: "\<not> isPoolCreation log \<Longrightarrow> processLog_v1 net bigNum url st log = st"
  by (simp add: processLog_v1_def split: prod.splits)

lemma parseLoop_drop:
  "processLog net bigNum url (parseLoop net bigNum url pre st) log = parseLoop net bigNum url pre st
     \<Longrightarrow> parseLoop net bigNum url (pre @ log # post) st = parseLoop net bigNum url (pre @ post) st"
  by (simp add: parseLoop_append)

lemma parseLoop_v1_drop:
  "processLog_v1 net bigNum url (parseLoop_v1 net bigNum url pre st) log = parseLoop_v1 net bigNum url pre st
     \<Longrightarrow> parseLoop_v1 net bigNum url (pre @ log # post) st = parseLoop_v1 net bigNum url (pre @ post) st"
  by (simp add: parseLoop_v1_append)

lemma processLog_invalid:
  assumes "isPoolCreation log" and "topics log = Some ts"
    and "hexToHederaId bigNum (ts ! 1) = ''0.0.0'' \<or> hexToHederaId bigNum (ts ! 2) = ''0.0.0''
         \<or> extractPoolContractId bigNum (data log) (hexToHederaId bigNum (ts ! 1)) (hexToHederaId bigNum (ts ! 2)) = ''0.0.0''"
  shows "processLog net bigNum url st log = st"
  using assms by (auto simp: processLog_def Let_def split: prod.splits)

lemma isTopic32_hex:
  assumes "isTopic32 t"
  shows "8 \<le> length (withoutPrefix0x t)" and "\<forall>c\<in>set (sliceLast 8 (withoutPrefix0x t)). isHexDigit c"
proof -
  show "8 \<le> length (withoutPrefix0x t)" using assms by (simp add: isTopic32_def)
  have "set (sliceLast 8 (withoutPrefix0x t)) \<subseteq> set (withoutPrefix0x t)"
    unfolding sliceLast_def by (rule set_drop_subset)
  moreover have "\<forall>c\<in>set (withoutPrefix0x t). isHexDigit c"
    using assms by (simp add: isTopic32_def list_all_iff)
  ultimately show "\<forall>c\<in>set (sliceLast 8 (withoutPrefix0x t)). isHexDigit c" by blast
qed

lemma hexToHederaId_sentinel_iff:
  assumes "isTopic32 t"
  shows "hexToHederaId bigNum t = ''0.0.0'' \<longleftrightarrow> entityNumber t = 0 \<or> 100000000 < entityNumber t"
  using hexToHederaId_entityNumber[OF isTopic32_hex[OF assms], of bigNum] digits10_zero_iff[of "entityNumber t"]
  by auto

subsection \<open>Identifiers and their entity numbers\<close>

lemma decimal_chars:
  "\<forall>c\<in>set ''0123456789''. isRadixDigit 10 c \<and> \<not> isWhiteSpace c \<and> c \<noteq> CHR ''+'' \<and> c \<noteq> CHR ''-''
       \<and> c \<noteq> CHR ''x'' \<and> c \<noteq> CHR ''X'' \<and> c \<noteq> CHR ''.''"
  by (simp add: isRadixDigit_def digitVal_def isWhiteSpace_def)

lemma digitChar_decimal: "n < 10 \<Longrightarrow> digitChar n \<in> set ''0123456789''"
  unfolding digitChar_def by (rule nth_mem) simp

lemma digits10_decimal: "\<forall>c\<in>set (digits10 n). c \<in> set ''0123456789''"
proof (induction n rule: digits10.induct)
  case (1 n)
  show ?case
  proof (cases "n < 10")
    case True
    then show ?thesis using digitChar_decimal[OF True] by (subst digits10.simps) simp
  next
    case False
    have "n mod 10 < 10" by simp
    from digitChar_decimal[OF this] 1[OF False] False show ?thesis
      by (subst digits10.simps) auto
  qed
qed

lemma upt_10: "[0..<10] = [0, 1, 2, 3, 4, 5, 6, 7, 8, 9::nat]"
  by (simp add: upt_rec)

lemma digitVal_digitChar_all: "\<forall>n\<in>set [0, 1, 2, 3, 4, 5, 6, 7, 8, 9::nat]. digitVal (digitChar n) = Some n"
  by (simp add: digitVal_def digitChar_def)

lemma digitVal_digitChar: "n < 10 \<Longrightarrow> digitVal (digitChar n) = Some n"
proof -
  assume "n < 10"
  then have "n \<in> set [0..<10]" by simp
  then show ?thesis using digitVal_digitChar_all unfolding upt_10 by blast
qed

lemma digitsValue_snoc:
  "digitsValue R (Z @ [c]) = digitsValue R Z * R + (case digitVal c of Some d \<Rightarrow> d | None \<Rightarrow> 0)"
  by (simp add: digitsValue_def)

lemma digitsValue_digits10: "digitsValue 10 (digits10 n) = n"
proof (induction n rule: digits10.induct)
  case (1 n)
  show ?case
  proof (cases "n < 10")
    case True
    then show ?thesis by (subst digits10.simps) (simp add: digitsValue_def digitVal_digitChar)
  next
    case False
    have "digits10 n = digits10 (n div 10) @ [digitChar (n mod 10)]"
      using False by (subst digits10.simps) simp
    then show ?thesis using 1[OF False] by (simp add: digitsValue_snoc digitVal_digitChar)
  qed
qed


lemma parseInt_digits10: "parseInt (digits10 n) None = toNumber (int n)"
proof -
  let ?Z = "digits10 n"
  obtain c cs where Z: "?Z = c # cs" using digits10_nonempty[of n] by (cases ?Z) auto
  have all: "\<forall>c\<in>set ?Z. isRadixDigit 10 c \<and> \<not> isWhiteSpace c \<and> c \<noteq> CHR ''+'' \<and> c \<noteq> CHR ''-''
       \<and> c \<noteq> CHR ''x'' \<and> c \<noteq> CHR ''X'' \<and> c \<noteq> CHR ''.''"
    using digits10_decimal[of n] decimal_chars by blast
  have c: "\<not> isWhiteSpace c" "c \<noteq> CHR ''+''" "c \<noteq> CHR ''-''" using all Z by simp_all
  have s1: "dropWhile isWhiteSpace ?Z = ?Z" using c(1) Z by simp
  have sign: "take 1 ?Z \<noteq> ''+''" "take 1 ?Z \<noteq> ''-''" using c(2,3) Z by simp_all
  have pre: "take 2 ?Z \<noteq> ''0x''" "take 2 ?Z \<noteq> ''0X''"
  proof -
    show "take 2 ?Z \<noteq> ''0x''"
    proof (cases cs)
      case Nil then show ?thesis using Z by simp
    next
      case (Cons d ds)
      then have "d \<noteq> CHR ''x''" using all Z by simp
      then show ?thesis using Z Cons by simp
    qed
    show "take 2 ?Z \<noteq> ''0X''"
    proof (cases cs)
      case Nil then show ?thesis using Z by simp
    next
      case (Cons d ds)
      then have "d \<noteq> CHR ''X''" using all Z by simp
      then show ?thesis using Z Cons by simp
    qed
  qed
  have tw: "takeWhile (isRadixDigit 10) ?Z = ?Z" using all by (simp add: takeWhile_eq_all_conv)
  have ne: "?Z \<noteq> []" by (rule digits10_nonempty)
  show ?thesis
    unfolding parseInt_def Let_def s1 using sign pre ne by (simp add: tw digitsValue_digits10)
qed

lemma split_no_sep: "c \<notin> set s \<Longrightarrow> split c s = [s]"
  by (induction s) auto

lemma split_id: "CHR ''.'' \<notin> set s \<Longrightarrow> split CHR ''.'' (''0.0.'' @ s) = [''0'', ''0'', s]"
  by (simp add: split_no_sep)

lemma entity_of_id:
  assumes "n < 2 ^ 53"
  shows "parseIntOpt (at (split CHR ''.'' (''0.0.'' @ digits10 n)) 2) = Num (int n)"
proof -
  have "CHR ''.'' \<notin> set (digits10 n)" using digits10_decimal[of n] decimal_chars by blast
  then have "split CHR ''.'' (''0.0.'' @ digits10 n) = [''0'', ''0'', digits10 n]" by (rule split_id)
  then have "at (split CHR ''.'' (''0.0.'' @ digits10 n)) 2 = Some (digits10 n)"
    by (simp only:) (simp add: at_def)
  then show ?thesis using assms by (simp add: parseIntOpt_def parseInt_digits10 toNumber_small)
qed

lemma extractPoolContractId_sum:
  assumes "a \<le> 100000000" and "b \<le> 100000000"
  shows "extractPoolContractId bigNum d (''0.0.'' @ digits10 a) (''0.0.'' @ digits10 b)
           = ''0.0.'' @ digits10 (a + b + 1000000)"
proof -
  have a: "a < 2 ^ 53" and b: "b < 2 ^ 53" using assms by simp_all
  have s1: "\<bar>int a + int b\<bar> < 2 ^ 53" using assms by simp
  have s2: "\<bar>int a + int b + 1000000\<bar> < 2 ^ 53" using assms by simp
  have n: "nat (int a + int b + 1000000) = a + b + 1000000" by simp
  show ?thesis
    unfolding extractPoolContractId_def Let_def entity_of_id[OF a] entity_of_id[OF b]
    using s2 by (simp add: toNumber_small[OF s1] toNumber_small[OF s2] n)
qed

lemma extractPoolContractId_valid:
  assumes "a \<le> 100000000" and "b \<le> 100000000"
  shows "extractPoolContractId bigNum d (''0.0.'' @ digits10 a) (''0.0.'' @ digits10 b) \<noteq> ''0.0.0''"
  unfolding extractPoolContractId_sum[OF assms] using digits10_zero_iff[of "a + b + 1000000"] by simp

lemma valid_candidate:
  assumes "isTopic32 t0" and "isTopic32 t1"
    and "0 < entityNumber t0" and "entityNumber t0 \<le> 100000000"
    and "0 < entityNumber t1" and "entityNumber t1 \<le> 100000000"
  shows "hexToHederaId bigNum t0 = ''0.0.'' @ digits10 (entityNumber t0)"
    and "hexToHederaId bigNum t1 = ''0.0.'' @ digits10 (entityNumber t1)"
    and "hexToHederaId bigNum t0 \<noteq> ''0.0.0''" and "hexToHederaId bigNum t1 \<noteq> ''0.0.0''"
    and "extractPoolContractId bigNum d (hexToHederaId bigNum t0) (hexToHederaId bigNum t1)
           = ''0.0.'' @ digits10 (entityNumber t0 + entityNumber t1 + 1000000)"
    and "extractPoolContractId bigNum d (hexToHederaId bigNum t0) (hexToHederaId bigNum t1) \<noteq> ''0.0.0''"
proof -
  show h0: "hexToHederaId bigNum t0 = ''0.0.'' @ digits10 (entityNumber t0)"
    using hexToHederaId_entityNumber[OF isTopic32_hex[OF assms(1)], of bigNum] assms(3,4) by simp
  show h1: "hexToHederaId bigNum t1 = ''0.0.'' @ digits10 (entityNumber t1)"
    using hexToHederaId_entityNumber[OF isTopic32_hex[OF assms(2)], of bigNum] assms(5,6) by simp
  show "hexToHederaId bigNum t0 \<noteq> ''0.0.0''"
    using hexToHederaId_sentinel_iff[OF assms(1), of bigNum] assms(3,4) by simp
  show "hexToHederaId bigNum t1 \<noteq> ''0.0.0''"
    using hexToHederaId_sentinel_iff[OF assms(2), of bigNum] assms(5,6) by simp
  show "extractPoolContractId bigNum d (hexToHederaId bigNum t0) (hexToHederaId bigNum t1)
           = ''0.0.'' @ digits10 (entityNumber t0 + entityNumber t1 + 1000000)"
    unfolding h0 h1 by (rule extractPoolContractId_sum[OF assms(4,6)])
  show "extractPoolContractId bigNum d (hexToHederaId bigNum t0) (hexToHederaId bigNum t1) \<noteq> ''0.0.0''"
    unfolding h0 h1 by (rule extractPoolContractId_valid[OF assms(4,6)])
qed

subsection \<open>Evaluation on the concrete inputs\<close>

lemma t1234: "hexToHederaId bigNum ''0x0000000000000000000000000000000000000000000000000000000000001234'' = ''0.0.4660''"
  by (simp add: hexToHederaId_def sliceLast_def parseInt_def isWhiteSpace_def isRadixDigit_def digitVal_def digitsValue_def toNumber_def digits10.simps digitChar_def Let_def)

lemma t5678: "hexToHederaId bigNum ''0x0000000000000000000000000000000000000000000000000000000000005678'' = ''0.0.22136''"
  by (simp add: hexToHederaId_def sliceLast_def parseInt_def isWhiteSpace_def isRadixDigit_def digitVal_def digitsValue_def toNumber_def digits10.simps digitChar_def Let_def)

lemma fee3000: "parseInt ''0x0000000000000000000000000000000000000000000000000000000000000bb8'' (Some 16) = Num 3000"
  by (simp add: parseInt_def isWhiteSpace_def isRadixDigit_def digitVal_def digitsValue_def toNumber_def Let_def)

lemma pool_id_1234_5678: "extractPoolContractId bigNum d ''0.0.4660'' ''0.0.22136'' = ''0.0.1026796''"
  by (simp add: extractPoolContractId_def parseIntOpt_def at_def parseInt_def isWhiteSpace_def isRadixDigit_def digitVal_def digitsValue_def toNumber_def digits10.simps digitChar_def Let_def)

lemma isPoolCreation_mockLog: "isPoolCreation mockLog"
  by (simp add: isPoolCreation_def mockLog_def at_def POOL_CREATED_TOPIC_def)

lemma processLog_mockLog:
  "processLog mockAxios bigNum url ([], [u]) mockLog =
     ([mockPool], [u, url @ ''/api/v1/tokens/0.0.4660'', url @ ''/api/v1/tokens/0.0.22136''])"
proof -
  have ts: "topics mockLog = Some [''0x783cca1c0412dd0d695e784568c96da2e9c22ff989357a2e8b1d9b2b4e6b7118'',
                               ''0x0000000000000000000000000000000000000000000000000000000000001234'',
                               ''0x0000000000000000000000000000000000000000000000000000000000005678'',
                               ''0x0000000000000000000000000000000000000000000000000000000000000bb8'']"
    by (simp add: mockLog_def)
  show ?thesis
    unfolding processLog_def Let_def
    by (simp add: isPoolCreation_mockLog ts t1234 t5678 fee3000 pool_id_1234_5678
          fetchTokenInfo_def axios_get_def mockAxios_def mockToken0Response_def mockToken1Response_def
          numOr_def strOr_def mockPool_def)
qed

lemma parseLoop_mockLog:
  "parseLoop mockAxios bigNum url [mockLog] ([], [u]) =
     ([mockPool], [u, url @ ''/api/v1/tokens/0.0.4660'', url @ ''/api/v1/tokens/0.0.22136''])"
  by (simp add: processLog_mockLog)

lemma isPoolCreation_zeroTokenLog: "isPoolCreation zeroTokenLog"
  by (simp add: isPoolCreation_def zeroTokenLog_def at_def POOL_CREATED_TOPIC_def)

lemma isTopic32_zero: "isTopic32 ''0x0000000000000000000000000000000000000000000000000000000000000000''"
  by (simp add: isTopic32_def withoutPrefix0x_def isHexDigit_def)

lemma entityNumber_zero: "entityNumber ''0x0000000000000000000000000000000000000000000000000000000000000000'' = 0"
  by (simp add: entityNumber_def sliceLast_def digitsValue_def digitVal_def)

lemma bitLength_3000: "bitLength 3000 = 12" by (simp add: bitLength.simps)
lemma bitLength_10000: "bitLength 10000 = 14" by (simp add: bitLength.simps)
lemma divToDouble_3000: "divToDouble 3000 10000 = (5404319552844595, -54)"
  by (simp add: divToDouble_def bitLength_3000 bitLength_10000 scaled_def roundHalfEvenDiv_def Let_def)
lemma digits10_30: "digits10 30 = ''30''" by (simp add: digits10.simps digitChar_def)
lemma toFixed2_3000: "toFixed2 (5404319552844595, -54) = ''0.30''"
  unfolding toFixed2_def Let_def prod.case by (simp add: digits10_30)
lemma feeTier_3000: "feeTier bigQuot (Num 3000) = ''0.30''"
  by (simp add: divToDouble_3000 toFixed2_3000)

lemma fetchTokenInfo_ok:
  assumes "net (length calls) (url @ ''/api/v1/tokens/'' @ tokenId) = Inr (Some token)"
  shows "\<exists>a. fetchTokenInfo net tokenId url calls = (Some a, calls @ [url @ ''/api/v1/tokens/'' @ tokenId])"
  using assms by (simp add: fetchTokenInfo_def axios_get_def)

lemma processLog_emits:
  assumes "isPoolCreation log" and "topics log = Some ts"
    and "hexToHederaId bigNum (ts ! 1) \<noteq> ''0.0.0''" and "hexToHederaId bigNum (ts ! 2) \<noteq> ''0.0.0''"
    and "extractPoolContractId bigNum (data log) (hexToHederaId bigNum (ts ! 1)) (hexToHederaId bigNum (ts ! 2)) \<noteq> ''0.0.0''"
    and "fetchTokenInfo net (hexToHederaId bigNum (ts ! 1)) url calls = (Some a, calls1)"
    and "fetchTokenInfo net (hexToHederaId bigNum (ts ! 2)) url calls1 = (Some b, calls2)"
  shows "processLog net bigNum url (pools, calls) log =
           (pools @ [\<lparr> pool_id = length pools + 1,
                        contractId = extractPoolContractId bigNum (data log) (hexToHederaId bigNum (ts ! 1)) (hexToHederaId bigNum (ts ! 2)),
                        tokenA = a, amountA = ''0'', tokenB = b, amountB = ''0'',
                        fee = parseInt (ts ! 3) (Some 16),
                        sqrtRatioX96 = ''79228162514264337593543950336'',
                        tickCurrent = 0, liquidity = ''Available'' \<rparr>], calls2)"
  using assms by (simp add: processLog_def Let_def)

subsection \<open>The lookup action\<close>

lemma matchingPools_set:
  "matchingPools allPools x y =
     filter (\<lambda>p. {toUpperCase (symbol (tokenA p)), toUpperCase (symbol (tokenB p))} = {x, y}) allPools"
  unfolding matchingPools_def Let_def
  by (rule filter_cong) (auto simp: doubleton_eq_iff)

lemma matchingPools_swap: "matchingPools allPools x y = matchingPools allPools y x"
  unfolding matchingPools_set by (simp add: insert_commute)

lemma resultPools_catchAll_Inl [simp]: "resultPools (catchAll i tag (Inl e)) = []"
  by (simp add: resultPools_def catchAll_def)

lemma resultPools_catchAll_runCallback:
  "resultPools (catchAll i tag (runCallback cb (Success t n ps ds))) = (if cb = None \<or> cb = Some None then ps else [])"
  by (cases cb) (auto simp: resultPools_def catchAll_def runCallback_def split: option.splits)

lemma getPoolInfo_swap:
  assumes "m t = Some (a, b)" and "m' t = Some (b, a)"
  shows "resultPools (fst (getPoolInfoAction s net bigNum cb m (Some t)))
           = resultPools (fst (getPoolInfoAction s net bigNum cb m' (Some t)))
       \<and> snd (getPoolInfoAction s net bigNum cb m (Some t)) = snd (getPoolInfoAction s net bigNum cb m' (Some t))"
  using assms
  by (auto simp: getPoolInfoAction_def getPoolInfoBody_def Let_def matchingPools_swap[of _ "toUpperCase b" "toUpperCase a"]
        resultPools_catchAll_runCallback
      split: option.splits sum.splits prod.splits)


lemma catchAll_Success:
  "catchAll i tag r = Inr (Success msg n ps ds) \<Longrightarrow> r = Inr (Success msg n ps ds)"
  by (cases r) (simp_all add: catchAll_def)

lemma runCallback_Inr: "runCallback cb v = Inr w \<Longrightarrow> w = v"
  by (cases cb) (auto simp: runCallback_def split: option.splits)

lemma getPoolInfo_success:
  assumes "m t = Some (a, b)"
    and "fst (getPoolInfoAction s net bigNum cb m (Some t)) = Inr (Success msg n ps ds)"
  shows "\<exists>url logsUrl body. net 0 logsUrl = Inr (Some body)
           \<and> ps = matchingPools
                    (fst (parsePoolCreationEvents net bigNum (case p_logs body of Some l \<Rightarrow> l | None \<Rightarrow> []) url [logsUrl]))
                    (toUpperCase a) (toUpperCase b)"
proof -
  let ?network = "strOr (HEDERA_NETWORK s) ''mainnet''"
  let ?mu = "case HEDERA_MIRROR_NODE_URL s of
               Some u \<Rightarrow> (if u = [] then CONTRACT_ADDRESSES_mirrorNode ?network else Some u)
             | None \<Rightarrow> CONTRACT_ADDRESSES_mirrorNode ?network"
  from assms(2) have b: "fst (getPoolInfoBody s net bigNum cb m (Some t)) = Inr (Success msg n ps ds)"
    by (auto simp: getPoolInfoAction_def split: prod.splits dest: catchAll_Success)
  have t: "t \<noteq> []" using b by (auto simp: getPoolInfoBody_def)
  obtain url where mu: "?mu = Some url"
    using b assms(1) t by (cases ?mu) (simp_all add: getPoolInfoBody_def Let_def)
  obtain fc where fc: "CONTRACT_ADDRESSES_factory ?network = Some fc"
    using b assms(1) t mu by (cases "CONTRACT_ADDRESSES_factory ?network") (simp_all add: getPoolInfoBody_def Let_def)
  let ?lu = "url @ ''/api/v1/contracts/'' @ fc @ ''/results/logs?limit=100''"
  have "\<exists>body. net 0 ?lu = Inr (Some body)"
  proof (cases "net 0 ?lu")
    case (Inl e)
    then show ?thesis using b assms(1) t mu fc by (simp add: getPoolInfoBody_def Let_def axios_get_def)
  next
    case (Inr r)
    then show ?thesis using b assms(1) t mu fc
      by (cases r) (simp_all add: getPoolInfoBody_def Let_def axios_get_def)
  qed
  then obtain body where body: "net 0 ?lu = Inr (Some body)" by blast
  let ?logs = "case p_logs body of Some l \<Rightarrow> l | None \<Rightarrow> []"
  let ?found = "matchingPools (fst (parsePoolCreationEvents net bigNum ?logs url [?lu])) (toUpperCase a) (toUpperCase b)"
  let ?S = "Success (''Found '' @ digits10 (length ?found) @ '' pool(s) for ''
                       @ toUpperCase a @ ''/'' @ toUpperCase b)
              (length ?found) ?found (''Hedera Mirror Node ('' @ url @ '')'')"
  have "\<exists>v. fst (getPoolInfoBody s net bigNum cb m (Some t)) =
          (if length ?found = 0 then Inl v else runCallback cb ?S)"
    using assms(1) t mu fc body
    by (simp add: getPoolInfoBody_def Let_def axios_get_def split: prod.splits)
  then obtain v where e: "fst (getPoolInfoBody s net bigNum cb m (Some t)) =
          (if length ?found = 0 then Inl v else runCallback cb ?S)" by blast
  have "length ?found \<noteq> 0" using e b by (cases "length ?found = 0") simp_all
  then have "runCallback cb ?S = Inr (Success msg n ps ds)" using e b by simp
  from runCallback_Inr[OF this] have "ps = ?found" by simp
  with body show ?thesis by blast
qed


lemma digits10_1: "digits10 (Suc 0) = ''1''" by (simp add: digits10.simps digitChar_def)

lemma upper_WHBAR: "toUpperCase ''WHBAR'' = ''WHBAR''" "toUpperCase ''whbar'' = ''WHBAR''"
  by (simp_all add: toUpperCase_def upperChar_def)

lemma upper_USDC: "toUpperCase ''USDC'' = ''USDC''" "toUpperCase ''usdc'' = ''USDC''"
  by (simp_all add: toUpperCase_def upperChar_def)

lemma matchingPools_mock:
  "matchingPools [mockPool] ''WHBAR'' ''USDC'' = [mockPool]"
  "matchingPools [mockPool] ''USDC'' ''WHBAR'' = [mockPool]"
  by (simp_all add: matchingPools_def mockPool_def upper_WHBAR upper_USDC)

lemma parse_mock:
  "parsePoolCreationEvents mockAxios bigNum [mockLog] url [u]
     = ([mockPool], [u, url @ ''/api/v1/tokens/0.0.4660'', url @ ''/api/v1/tokens/0.0.22136''])"
  by (simp add: parsePoolCreationEvents_def processLog_mockLog)

lemma getPoolInfo_mock:
  "getPoolInfoAction testnetSettings mockAxios noBigNum None matchWhbarUsdc (Some ''Show whbar/usdc pool details'')
     = (Inr (Success ''Found 1 pool(s) for WHBAR/USDC'' 1 [mockPool]
               ''Hedera Mirror Node (https://testnet.mirrornode.hedera.com)''),
        [''https://testnet.mirrornode.hedera.com/api/v1/contracts/0.0.1197038/results/logs?limit=100'',
         ''https://testnet.mirrornode.hedera.com/api/v1/tokens/0.0.4660'',
         ''https://testnet.mirrornode.hedera.com/api/v1/tokens/0.0.22136''])"
  unfolding getPoolInfoAction_def getPoolInfoBody_def Let_def
  by (simp add: testnetSettings_def matchWhbarUsdc_def strOr_def CONTRACT_ADDRESSES_factory_def
        axios_get_def mockAxios_def mockLogsResponse_def parse_mock upper_WHBAR upper_USDC
        matchingPools_mock digits10_1 runCallback_def catchAll_def)


lemma getPoolInfo_mock_swapped:
  "getPoolInfoAction testnetSettings mockAxios noBigNum None matchUsdcWhbar (Some ''Show whbar/usdc pool details'')
     = (Inr (Success ''Found 1 pool(s) for USDC/WHBAR'' 1 [mockPool]
               ''Hedera Mirror Node (https://testnet.mirrornode.hedera.com)''),
        [''https://testnet.mirrornode.hedera.com/api/v1/contracts/0.0.1197038/results/logs?limit=100'',
         ''https://testnet.mirrornode.hedera.com/api/v1/tokens/0.0.4660'',
         ''https://testnet.mirrornode.hedera.com/api/v1/tokens/0.0.22136''])"
  unfolding getPoolInfoAction_def getPoolInfoBody_def Let_def
  by (simp add: testnetSettings_def matchUsdcWhbar_def strOr_def CONTRACT_ADDRESSES_factory_def
        axios_get_def mockAxios_def mockLogsResponse_def parse_mock upper_WHBAR upper_USDC
        matchingPools_mock digits10_1 runCallback_def catchAll_def)

subsection \<open>Token metadata\<close>




subsection \<open>Records and the token requests behind them\<close>

lemma processLog_cases:
  "\<exists>calls'. processLog net bigNum url (pools, calls) log = (pools, calls')
            \<or> (\<exists>q. processLog net bigNum url (pools, calls) log = (pools @ [q], calls')
                    \<and> resolvedFrom net bigNum url log calls q)"
proof (cases "isPoolCreation log")
  case False
  then show ?thesis by (simp add: processLog_other)
next
  case True
  then obtain ts where ts: "topics log = Some ts" by (auto simp: isPoolCreation_def split: option.splits)
  obtain a c1 where a: "fetchTokenInfo net (hexToHederaId bigNum (ts ! 1)) url calls = (a, c1)" by fastforce
  obtain b c2 where b: "fetchTokenInfo net (hexToHederaId bigNum (ts ! 2)) url c1 = (b, c2)" by fastforce
  show ?thesis
    using True ts a b
    by (cases a; cases b) (auto simp: processLog_def Let_def resolvedFrom_def)
qed

lemma processLog_v1_cases:
  "\<exists>calls'. processLog_v1 net bigNum url (pools, calls) log = (pools, calls')
            \<or> (\<exists>q. processLog_v1 net bigNum url (pools, calls) log = (pools @ [q], calls')
                    \<and> resolvedFrom_v1 net bigNum url log calls q)"
proof (cases "isPoolCreation log")
  case False
  then show ?thesis by (simp add: processLog_v1_other)
next
  case True
  then obtain ts where ts: "topics log = Some ts" by (auto simp: isPoolCreation_def split: option.splits)
  obtain a c1 where a: "fetchTokenInfo_v1 net bigNum (hexToHederaId_v1 bigNum (ts ! 1)) url calls = (a, c1)" by fastforce
  obtain b c2 where b: "fetchTokenInfo_v1 net bigNum (hexToHederaId_v1 bigNum (ts ! 2)) url c1 = (b, c2)" by fastforce
  show ?thesis
    using True ts a b
    by (cases a; cases b) (auto simp: processLog_v1_def Let_def resolvedFrom_v1_def)
qed

lemma parseLoop_resolved:
  "\<forall>p\<in>set (fst (parseLoop net bigNum url logs (pools, calls))).
      p \<in> set pools \<or> (\<exists>log\<in>set logs. \<exists>c. resolvedFrom net bigNum url log c p)"
proof (induction logs arbitrary: pools calls)
  case Nil
  then show ?case by simp
next
  case (Cons log logs)
  from processLog_cases[of net bigNum url pools calls log]
  obtain calls' where
    "processLog net bigNum url (pools, calls) log = (pools, calls')
       \<or> (\<exists>q. processLog net bigNum url (pools, calls) log = (pools @ [q], calls')
               \<and> resolvedFrom net bigNum url log calls q)" by blast
  then show ?case
  proof
    assume "processLog net bigNum url (pools, calls) log = (pools, calls')"
    then show ?thesis using Cons.IH[of pools calls'] by auto
  next
    assume "\<exists>q. processLog net bigNum url (pools, calls) log = (pools @ [q], calls')
               \<and> resolvedFrom net bigNum url log calls q"
    then obtain q where q: "processLog net bigNum url (pools, calls) log = (pools @ [q], calls')"
      and r: "resolvedFrom net bigNum url log calls q" by blast
    show ?thesis
    proof
      fix p assume "p \<in> set (fst (parseLoop net bigNum url (log # logs) (pools, calls)))"
      then have "p \<in> set (fst (parseLoop net bigNum url logs (pools @ [q], calls')))" using q by simp
      with Cons.IH[of "pools @ [q]" calls']
      have "p \<in> set (pools @ [q]) \<or> (\<exists>log\<in>set logs. \<exists>c. resolvedFrom net bigNum url log c p)" by blast
      then show "p \<in> set pools \<or> (\<exists>l\<in>set (log # logs). \<exists>c. resolvedFrom net bigNum url l c p)"
        using r by auto
    qed
  qed
qed

lemma parseLoop_v1_resolved:
  "\<forall>p\<in>set (fst (parseLoop_v1 net bigNum url logs (pools, calls))).
      p \<in> set pools \<or> (\<exists>log\<in>set logs. \<exists>c. resolvedFrom_v1 net bigNum url log c p)"
proof (induction logs arbitrary: pools calls)
  case Nil
  then show ?case by simp
next
  case (Cons log logs)
  from processLog_v1_cases[of net bigNum url pools calls log]
  obtain calls' where
    "processLog_v1 net bigNum url (pools, calls) log = (pools, calls')
       \<or> (\<exists>q. processLog_v1 net bigNum url (pools, calls) log = (pools @ [q], calls')
               \<and> resolvedFrom_v1 net bigNum url log calls q)" by blast
  then show ?case
  proof
    assume "processLog_v1 net bigNum url (pools, calls) log = (pools, calls')"
    then show ?thesis using Cons.IH[of pools calls'] by auto
  next
    assume "\<exists>q. processLog_v1 net bigNum url (pools, calls) log = (pools @ [q], calls')
               \<and> resolvedFrom_v1 net bigNum url log calls q"
    then obtain q where q: "processLog_v1 net bigNum url (pools, calls) log = (pools @ [q], calls')"
      and r: "resolvedFrom_v1 net bigNum url log calls q" by blast
    show ?thesis
    proof
      fix p assume "p \<in> set (fst (parseLoop_v1 net bigNum url (log # logs) (pools, calls)))"
      then have "p \<in> set (fst (parseLoop_v1 net bigNum url logs (pools @ [q], calls')))" using q by simp
      with Cons.IH[of "pools @ [q]" calls']
      have "p \<in> set (pools @ [q]) \<or> (\<exists>log\<in>set logs. \<exists>c. resolvedFrom_v1 net bigNum url log c p)" by blast
      then show "p \<in> set pools \<or> (\<exists>l\<in>set (log # logs). \<exists>c. resolvedFrom_v1 net bigNum url l c p)"
        using r by auto
    qed
  qed
qed

lemma processLog_fetch_failed:
  assumes "topics log = Some ts"
    and "fst (fetchTokenInfo net (hexToHederaId bigNum (ts ! 1)) url calls) = None
         \<or> fst (fetchTokenInfo net (hexToHederaId bigNum (ts ! 2)) url
                  (snd (fetchTokenInfo net (hexToHederaId bigNum (ts ! 1)) url calls))) = None"
  shows "fst (processLog net bigNum url (pools, calls) log) = pools"
  using assms by (auto simp: processLog_def Let_def split: prod.splits option.splits)

lemma processLog_v1_fetch_failed:
  assumes "topics log = Some ts"
    and "fst (fetchTokenInfo_v1 net bigNum (hexToHederaId_v1 bigNum (ts ! 1)) url calls) = None
         \<or> fst (fetchTokenInfo_v1 net bigNum (hexToHederaId_v1 bigNum (ts ! 2)) url
                  (snd (fetchTokenInfo_v1 net bigNum (hexToHederaId_v1 bigNum (ts ! 1)) url calls))) = None"
  shows "fst (processLog_v1 net bigNum url (pools, calls) log) = pools"
  using assms by (auto simp: processLog_v1_def Let_def split: prod.splits option.splits)


lemma v1_1234: "hexToHederaId_v1 bigNum ''0x0000000000000000000000000000000000000000000000000000000000001234'' = ''0.0.4660''"
  by (simp add: hexToHederaId_v1_def parseInt_def isWhiteSpace_def isRadixDigit_def digitVal_def digitsValue_def toNumber_def digits10.simps digitChar_def Let_def)

lemma v1_5678: "hexToHederaId_v1 bigNum ''0x0000000000000000000000000000000000000000000000000000000000005678'' = ''0.0.22136''"
  by (simp add: hexToHederaId_v1_def parseInt_def isWhiteSpace_def isRadixDigit_def digitVal_def digitsValue_def toNumber_def digits10.simps digitChar_def Let_def)

lemma v1_pool_zero: "hexToHederaId_v1 bigNum ''0x0000000000000000000000000000000000000000'' = ''0.0.0''"
  by (simp add: hexToHederaId_v1_def parseInt_def isWhiteSpace_def isRadixDigit_def digitVal_def digitsValue_def toNumber_def digits10.simps digitChar_def Let_def)

lemma slice_mock_data: "slice 66 106 (data mockLog) = ''0000000000000000000000000000000000000000''"
  by (simp add: slice_def mockLog_def)

lemma parseInt_8: "parseIntOpt (Some (digits10 8)) = Num 8"
  by (simp add: parseIntOpt_def parseInt_def isWhiteSpace_def isRadixDigit_def digitVal_def digitsValue_def toNumber_def digits10.simps digitChar_def Let_def)

lemma parseInt_6: "parseIntOpt (Some (digits10 6)) = Num 6"
  by (simp add: parseIntOpt_def parseInt_def isWhiteSpace_def isRadixDigit_def digitVal_def digitsValue_def toNumber_def digits10.simps digitChar_def Let_def)

lemma processLog_v1_mockLog:
  "processLog_v1 mockAxios bigNum url ([], [u]) mockLog =
     ([mockPool_v1], [u, url @ ''/api/v1/tokens/0.0.4660'', url @ ''/api/v1/tokens/0.0.22136''])"
proof -
  have ts: "topics mockLog = Some [''0x783cca1c0412dd0d695e784568c96da2e9c22ff989357a2e8b1d9b2b4e6b7118'',
                               ''0x0000000000000000000000000000000000000000000000000000000000001234'',
                               ''0x0000000000000000000000000000000000000000000000000000000000005678'',
                               ''0x0000000000000000000000000000000000000000000000000000000000000bb8'']"
    by (simp add: mockLog_def)
  show ?thesis
    unfolding processLog_v1_def Let_def slice_mock_data
    by (simp add: isPoolCreation_mockLog ts v1_1234 v1_5678 fee3000 v1_pool_zero
          fetchTokenInfo_v1_def axios_get_def mockAxios_def mockToken0Response_def mockToken1Response_def
          parseInt_8 parseInt_6 strOr_def mockPool_v1_def)
qed

lemma pool_id_same: "extractPoolContractId bigNum d ''0.0.4660'' ''0.0.4660'' = ''0.0.1009320''"
  by (simp add: extractPoolContractId_def parseIntOpt_def at_def parseInt_def isWhiteSpace_def isRadixDigit_def digitVal_def digitsValue_def toNumber_def digits10.simps digitChar_def Let_def)

lemma isPoolCreation_sameTokenLog: "isPoolCreation sameTokenLog"
  by (simp add: isPoolCreation_def sameTokenLog_def at_def POOL_CREATED_TOPIC_def)

lemma fetch_mock_exhausted:
  "fst (fetchTokenInfo mockAxios tokenId url [u1, u2, u3]) = None"
  "fst (fetchTokenInfo_v1 mockAxios bigNum tokenId url [u1, u2, u3]) = None"
  by (simp_all add: fetchTokenInfo_def fetchTokenInfo_v1_def axios_get_def mockAxios_def)


lemma processLog_sameTokenLog:
  "processLog mockAxios bigNum url ([], [u]) sameTokenLog =
     ([mockPool\<lparr> contractId := ''0.0.1009320'',
                  tokenB := (tokenB mockPool)\<lparr> token_id := ''0.0.4660'' \<rparr> \<rparr>],
      [u, url @ ''/api/v1/tokens/0.0.4660'', url @ ''/api/v1/tokens/0.0.4660''])"
proof -
  have ts: "topics sameTokenLog = Some [''0x783cca1c0412dd0d695e784568c96da2e9c22ff989357a2e8b1d9b2b4e6b7118'',
                               ''0x0000000000000000000000000000000000000000000000000000000000001234'',
                               ''0x0000000000000000000000000000000000000000000000000000000000001234'',
                               ''0x0000000000000000000000000000000000000000000000000000000000000bb8'']"
    by (simp add: sameTokenLog_def)
  show ?thesis
    unfolding processLog_def Let_def
    by (simp add: isPoolCreation_sameTokenLog ts t1234 fee3000 pool_id_same
          fetchTokenInfo_def axios_get_def mockAxios_def mockToken0Response_def mockToken1Response_def
          numOr_def strOr_def mockPool_def)
qed

subsection \<open>The list actions\<close>

lemma str_includes_self: "str_includes (sub @ b) sub"
proof (cases "sub @ b")
  case Nil
  then show ?thesis by simp
next
  case (Cons c cs)
  have "prefix sub (sub @ b)" by simp
  then show ?thesis unfolding Cons by simp
qed

lemma str_includes_append: "str_includes (a @ sub @ b) sub"
  by (induction a) (simp_all add: str_includes_self)

lemma mock_label_includes:
  "str_includes (''Hedera Mirror Node ('' @ url @ '') - Error fetching data, using mock data'') ''mock''"
proof -
  have "''Hedera Mirror Node ('' @ url @ '') - Error fetching data, using mock data''
          = (''Hedera Mirror Node ('' @ url @ '') - Error fetching data, using '') @ ''mock'' @ '' data''"
    by simp
  then show ?thesis by (simp only: str_includes_append)
qed

lemma mockPoolsData_shape: "length mockPoolsData = 1" "take 10 mockPoolsData = mockPoolsData"
  by (simp_all add: mockPoolsData_def)

lemma catchAll_Inr_ex: "\<exists>r. catchAll i tag x = Inr r"
  by (cases x) (simp_all add: catchAll_def)

lemma fetchAllPoolsAction_returns: "\<exists>r. fst (fetchAllPoolsAction s net bigNum cb) = Inr r"
  by (simp add: fetchAllPoolsAction_def Let_def catchAll_Inr_ex split: prod.splits)

lemma listPoolsAction_returns: "\<exists>r. fst (listPoolsAction s net bigNum cb) = Inr r"
  by (simp add: listPoolsAction_def catchAll_Inr_ex split: prod.splits)

lemma snd_fetchAllPoolsAction: "snd (fetchAllPoolsAction s net bigNum cb) = snd (choosePools s net bigNum)"
  by (simp add: fetchAllPoolsAction_def Let_def split: prod.splits)

lemma fetchAllPoolsAction_ok:
  "fst (choosePools s net bigNum) = (pools, label) \<Longrightarrow>
   fst (fetchAllPoolsAction s net bigNum (Some None))
     = Inr (Success (''Successfully fetched '' @ digits10 (length pools) @ '' pools from SaucerSwap'')
              (length pools) (take 10 pools) label)"
  by (cases "choosePools s net bigNum") (auto simp: fetchAllPoolsAction_def Let_def catchAll_def)

lemma parseLoop_v1_calls: "\<exists>extra. snd (parseLoop_v1 net bigNum url logs (pools, calls)) = calls @ extra"
proof (induction logs arbitrary: pools calls)
  case Nil
  then show ?case by simp
next
  case (Cons log logs)
  obtain pools' calls' where p: "processLog_v1 net bigNum url (pools, calls) log = (pools', calls')" by fastforce
  have "\<exists>e. calls' = calls @ e"
    using p by (auto simp: processLog_v1_def Let_def fetchTokenInfo_v1_def axios_get_def
                 split: if_splits prod.splits option.splits sum.splits)
  then obtain e where e: "calls' = calls @ e" by blast
  from Cons.IH[of pools' calls'] obtain extra where
    "snd (parseLoop_v1 net bigNum url logs (pools', calls')) = calls' @ extra" by blast
  then show ?case using p e by simp
qed

lemma choosePools_demo:
  "DEMO_MODE s = Some ''true'' \<Longrightarrow> choosePools s net bigNum = ((mockPoolsData, ''Demo Mode (Mock Data)''), [])"
  by (simp add: choosePools_def)

lemma choosePools_failed:
  assumes "snd (choosePools s net bigNum) = [logsUrl]" and "fetchFailed (net 0 logsUrl)"
  shows "\<exists>url. fst (choosePools s net bigNum)
           = (mockPoolsData, ''Hedera Mirror Node ('' @ url @ '') - Error fetching data, using mock data'')"
proof -
  let ?network = "strOr (HEDERA_NETWORK s) ''mainnet''"
  let ?url = "getHederaMirrorNodeUrl ?network (HEDERA_MIRROR_NODE_URL s)"
  have d: "DEMO_MODE s \<noteq> Some ''true''" using assms(1) by (auto simp: choosePools_def)
  obtain fc where fc: "SAUCERSWAP_V2_FACTORY_CONTRACTS ?network = Some fc"
    using assms(1) d by (cases "SAUCERSWAP_V2_FACTORY_CONTRACTS ?network") (simp_all add: choosePools_def Let_def)
  let ?lu = "?url @ ''/api/v1/contracts/'' @ fc @ ''/results/logs?limit=20''"
  have lu: "logsUrl = ?lu"
  proof (cases "net 0 ?lu")
    case (Inl e)
    then show ?thesis using assms(1) d fc by (simp add: choosePools_def Let_def axios_get_def)
  next
    case (Inr r)
    show ?thesis
    proof (cases r)
      case None
      then show ?thesis using Inr assms(1) d fc by (simp add: choosePools_def Let_def axios_get_def)
    next
      case (Some body)
      obtain extra where
        "snd (parseLoop_v1 net bigNum ?url (case p_logs body of Some l \<Rightarrow> l | None \<Rightarrow> []) ([], [?lu])) = [?lu] @ extra"
        using parseLoop_v1_calls by blast
      then show ?thesis using Some Inr assms(1) d fc
        by (auto simp: choosePools_def Let_def axios_get_def parsePoolCreationEvents_v1_def
              split: prod.splits if_splits)
    qed
  qed
  show ?thesis
  proof (cases "net 0 ?lu")
    case (Inl e)
    then show ?thesis using d fc by (simp add: choosePools_def Let_def axios_get_def)
  next
    case (Inr r)
    then have "r = None" using assms(2) lu by (cases r) (simp_all add: fetchFailed_def)
    then show ?thesis using Inr d fc by (simp add: choosePools_def Let_def axios_get_def)
  qed
qed


lemma parseLoop_calls: "\<exists>extra. snd (parseLoop net bigNum url logs (pools, calls)) = calls @ extra"
proof (induction logs arbitrary: pools calls)
  case Nil
  then show ?case by simp
next
  case (Cons log logs)
  obtain pools' calls' where p: "processLog net bigNum url (pools, calls) log = (pools', calls')" by fastforce
  have "\<exists>e. calls' = calls @ e"
    using p by (auto simp: processLog_def Let_def fetchTokenInfo_def axios_get_def
                 split: if_splits prod.splits option.splits sum.splits)
  then obtain e where e: "calls' = calls @ e" by blast
  from Cons.IH[of pools' calls'] obtain extra where
    "snd (parseLoop net bigNum url logs (pools', calls')) = calls' @ extra" by blast
  then show ?case using p e by simp
qed

lemma snd_listPoolsAction: "snd (listPoolsAction s net bigNum cb) = snd (listPoolsBody s net bigNum cb)"
  by (simp add: listPoolsAction_def split: prod.splits)

lemma listPoolsAction_failed:
  assumes "snd (listPoolsAction s net bigNum cb) = [logsUrl]" and "net 0 logsUrl = Inl e"
  shows "fst (listPoolsAction s net bigNum cb)
           = Inr (Failure (''Failed to fetch pools from SaucerSwap: '' @ message e) ''FETCH_POOLS_FAILED'' (message e))"
proof -
  let ?network = "strOr (HEDERA_NETWORK s) ''mainnet''"
  let ?mu = "case HEDERA_MIRROR_NODE_URL s of
               Some u \<Rightarrow> (if u = [] then CONTRACT_ADDRESSES_mirrorNode ?network else Some u)
             | None \<Rightarrow> CONTRACT_ADDRESSES_mirrorNode ?network"
  have b: "snd (listPoolsBody s net bigNum cb) = [logsUrl]" using assms(1) by (simp add: snd_listPoolsAction)
  obtain url where mu: "?mu = Some url"
    using b by (cases ?mu) (simp_all add: listPoolsBody_def Let_def)
  obtain fc where fc: "CONTRACT_ADDRESSES_factory ?network = Some fc"
    using b mu by (cases "CONTRACT_ADDRESSES_factory ?network") (simp_all add: listPoolsBody_def Let_def)
  let ?lu = "url @ ''/api/v1/contracts/'' @ fc @ ''/results/logs?limit=100''"
  have lu: "logsUrl = ?lu"
  proof (cases "net 0 ?lu")
    case (Inl e')
    then show ?thesis using b mu fc by (simp add: listPoolsBody_def Let_def axios_get_def)
  next
    case (Inr r)
    show ?thesis
    proof (cases r)
      case None
      then show ?thesis using Inr b mu fc by (simp add: listPoolsBody_def Let_def axios_get_def)
    next
      case (Some body)
      obtain extra where
        "snd (parseLoop net bigNum url (case p_logs body of Some l \<Rightarrow> l | None \<Rightarrow> []) ([], [?lu])) = [?lu] @ extra"
        using parseLoop_calls by blast
      then show ?thesis using Some Inr b mu fc
        by (auto simp: listPoolsBody_def Let_def axios_get_def parsePoolCreationEvents_def
              split: prod.splits if_splits)
    qed
  qed
  have "fst (listPoolsBody s net bigNum cb) = Inl e"
    using assms(2) mu fc unfolding lu by (simp add: listPoolsBody_def Let_def axios_get_def)
  then show ?thesis by (cases "listPoolsBody s net bigNum cb") (simp add: listPoolsAction_def catchAll_def)
qed

lemma listPoolsAction_ignores_demo:
  "listPoolsAction (s\<lparr>DEMO_MODE := d\<rparr>) net bigNum cb = listPoolsAction s net bigNum cb"
  by (simp add: listPoolsAction_def listPoolsBody_def)

lemma listPools_demo_mock:
  "listPoolsAction demoSettings mockAxios noBigNum None
     = (Inr (Success ''Successfully fetched 1 pools from SaucerSwap'' 1 [mockPool]
               ''Hedera Mirror Node (https://testnet.mirrornode.hedera.com) - 1 pools from contract events''),
        [''https://testnet.mirrornode.hedera.com/api/v1/contracts/0.0.1197038/results/logs?limit=100'',
         ''https://testnet.mirrornode.hedera.com/api/v1/tokens/0.0.4660'',
         ''https://testnet.mirrornode.hedera.com/api/v1/tokens/0.0.22136''])"
  unfolding listPoolsAction_def listPoolsBody_def Let_def
  by (simp add: demoSettings_def strOr_def CONTRACT_ADDRESSES_factory_def
        axios_get_def mockAxios_def mockLogsResponse_def parse_mock digits10_1 runCallback_def catchAll_def)

lemma listPools_down:
  "listPoolsAction testnetSettings downAxios noBigNum None
     = (Inr (Failure ''Failed to fetch pools from SaucerSwap: Mirror Node API error'' ''FETCH_POOLS_FAILED''
               ''Mirror Node API error''),
        [''https://testnet.mirrornode.hedera.com/api/v1/contracts/0.0.1197038/results/logs?limit=100''])"
  unfolding listPoolsAction_def listPoolsBody_def Let_def
  by (simp add: testnetSettings_def strOr_def CONTRACT_ADDRESSES_factory_def
        axios_get_def downAxios_def catchAll_def)

lemma choosePools_down:
  "choosePools testnetSettings downAxios noBigNum
     = ((mockPoolsData, ''Hedera Mirror Node (https://testnet.mirrornode.hedera.com) - Error fetching data, using mock data''),
        [''https://testnet.mirrornode.hedera.com/api/v1/contracts/0.0.1197038/results/logs?limit=20''])"
  unfolding choosePools_def Let_def
  by (simp add: testnetSettings_def strOr_def SAUCERSWAP_V2_FACTORY_CONTRACTS_def getHederaMirrorNodeUrl_def
        axios_get_def downAxios_def)

lemma fetchAll_down:
  "fetchAllPoolsAction testnetSettings downAxios noBigNum (Some None)
     = (Inr (Success ''Successfully fetched 1 pools from SaucerSwap'' 1 mockPoolsData
               ''Hedera Mirror Node (https://testnet.mirrornode.hedera.com) - Error fetching data, using mock data''),
        [''https://testnet.mirrornode.hedera.com/api/v1/contracts/0.0.1197038/results/logs?limit=20''])"
  unfolding fetchAllPoolsAction_def Let_def choosePools_down
  by (simp add: mockPoolsData_shape digits10_1 catchAll_def)

lemma topic_1: "hexToHederaId bigNum ''0x0000000000000000000000000000000000000000000000000000000000000001'' = ''0.0.1''"
  by (simp add: hexToHederaId_def sliceLast_def parseInt_def isWhiteSpace_def isRadixDigit_def digitVal_def
        digitsValue_def toNumber_def digits10.simps digitChar_def Let_def)
lemma topic_2: "hexToHederaId bigNum ''0x0000000000000000000000000000000000000000000000000000000000000002'' = ''0.0.2''"
  by (simp add: hexToHederaId_def sliceLast_def parseInt_def isWhiteSpace_def isRadixDigit_def digitVal_def
        digitsValue_def toNumber_def digits10.simps digitChar_def Let_def)
lemma topic_3: "hexToHederaId bigNum ''0x0000000000000000000000000000000000000000000000000000000000000003'' = ''0.0.3''"
  by (simp add: hexToHederaId_def sliceLast_def parseInt_def isWhiteSpace_def isRadixDigit_def digitVal_def
        digitsValue_def toNumber_def digits10.simps digitChar_def Let_def)
lemma topic_4: "hexToHederaId bigNum ''0x0000000000000000000000000000000000000000000000000000000000000004'' = ''0.0.4''"
  by (simp add: hexToHederaId_def sliceLast_def parseInt_def isWhiteSpace_def isRadixDigit_def digitVal_def
        digitsValue_def toNumber_def digits10.simps digitChar_def Let_def)
lemma pool_1_4: "extractPoolContractId bigNum d ''0.0.1'' ''0.0.4'' = ''0.0.1000005''"
  by (simp add: extractPoolContractId_def parseIntOpt_def at_def parseInt_def isWhiteSpace_def
        isRadixDigit_def digitVal_def digitsValue_def toNumber_def digits10.simps digitChar_def Let_def)
lemma pool_2_3: "extractPoolContractId bigNum d ''0.0.2'' ''0.0.3'' = ''0.0.1000005''"
  by (simp add: extractPoolContractId_def parseIntOpt_def at_def parseInt_def isWhiteSpace_def
        isRadixDigit_def digitVal_def digitsValue_def toNumber_def digits10.simps digitChar_def Let_def)

section \<open>Decoding a topic into an entity identifier\<close>

text \<open>
  Claim C10. Let \<open>hex\<close> be a string that, once an optional \<^verbatim>\<open>0x\<close> prefix is removed,
  has at least 8 characters of which the last 8 are hexadecimal digits. Then
  \<open>hexToHederaId\<close> (a total function of a string: nothing in it throws) returns the
  sentinel \<^verbatim>\<open>0.0.0\<close> or \<^verbatim>\<open>0.0.n\<close> for some \<open>0 < n \<le> 100,000,000\<close>, and its result is
  the stated function of those last 8 characters alone.
\<close>

theorem hexToHederaId_last8:
  assumes "8 \<le> length (withoutPrefix0x hex)"
    and "\<forall>c\<in>set (sliceLast 8 (withoutPrefix0x hex)). isHexDigit c"
  shows "(hexToHederaId bigNum hex = ''0.0.0'' \<or>
          (\<exists>n. 0 < n \<and> n \<le> 100000000 \<and> hexToHederaId bigNum hex = ''0.0.'' @ digits10 n))
       \<and> hexToHederaId bigNum hex =
           (let n = digitsValue 16 (sliceLast 8 (withoutPrefix0x hex))
            in if n = 0 \<or> 100000000 < n then ''0.0.0'' else ''0.0.'' @ digits10 n)"
proof -
  have e: "entityNumber hex = digitsValue 16 (sliceLast 8 (withoutPrefix0x hex))"
    using sliceLast_withoutPrefix(1)[OF assms(1)] by (simp add: entityNumber_def)
  have h: "hexToHederaId bigNum hex =
           (let n = digitsValue 16 (sliceLast 8 (withoutPrefix0x hex))
            in if n = 0 \<or> 100000000 < n then ''0.0.0'' else ''0.0.'' @ digits10 n)"
    using hexToHederaId_entityNumber[OF assms, of bigNum] unfolding e by (simp add: Let_def)
  have "hexToHederaId bigNum hex = ''0.0.0'' \<or>
          (\<exists>n. 0 < n \<and> n \<le> 100000000 \<and> hexToHederaId bigNum hex = ''0.0.'' @ digits10 n)"
  proof (cases "digitsValue 16 (sliceLast 8 (withoutPrefix0x hex)) = 0
                 \<or> 100000000 < digitsValue 16 (sliceLast 8 (withoutPrefix0x hex))")
    case True
    then show ?thesis using h by (simp add: Let_def)
  next
    case False
    then have "0 < digitsValue 16 (sliceLast 8 (withoutPrefix0x hex))"
      "digitsValue 16 (sliceLast 8 (withoutPrefix0x hex)) \<le> 100000000"
      "hexToHederaId bigNum hex = ''0.0.'' @ digits10 (digitsValue 16 (sliceLast 8 (withoutPrefix0x hex)))"
      using h by (simp_all add: Let_def)
    then show ?thesis by blast
  qed
  with h show ?thesis by blast
qed

theorem hexToHederaId_last8_witness:
  "hexToHederaId (\<lambda>v. []) ''0x0000000000000000000000000000000000000000000000000000000000001234'' = ''0.0.4660''"
proof -
  let ?t = "''0x0000000000000000000000000000000000000000000000000000000000001234''"
  have w: "withoutPrefix0x ?t = ''0000000000000000000000000000000000000000000000000000000000001234''"
    by (simp add: withoutPrefix0x_def)
  have s: "sliceLast 8 (withoutPrefix0x ?t) = ''00001234''" unfolding w by (simp add: sliceLast_def)
  have a: "8 \<le> length (withoutPrefix0x ?t)" unfolding w by simp
  have b: "\<forall>c\<in>set (sliceLast 8 (withoutPrefix0x ?t)). isHexDigit c" unfolding s by (simp add: isHexDigit_def)
  have v: "digitsValue 16 ''00001234'' = 4660" by (simp add: digitsValue_def digitVal_def)
  have d: "digits10 4660 = ''4660''" by (simp add: digits10.simps digitChar_def)
  from hexToHederaId_last8[OF a b, of "\<lambda>v. []"] show ?thesis unfolding s v by (simp add: d)
qed

text \<open>
  Claim C3. For every 32-byte hexadecimal topic the decoder reads the last 4 bytes (the
  final 8 hexadecimal digits) as an unsigned integer and returns the sentinel \<^verbatim>\<open>0.0.0\<close>
  exactly when that integer is 0 or greater than 100,000,000. A pool-creation entry whose
  token 0, token 1 or pool identifier is the sentinel leaves the state of the loop as it
  was (no record, no request, no error), and the loop goes on with the remaining
  entries: the result is that of the batch without the entry.
\<close>

theorem sentinel_discarded:
  "(isTopic32 t \<longrightarrow>
      hexToHederaId bigNum t =
        (if entityNumber t = 0 \<or> 100000000 < entityNumber t then ''0.0.0''
         else ''0.0.'' @ digits10 (entityNumber t))
      \<and> ((hexToHederaId bigNum t = ''0.0.0'') = (entityNumber t = 0 \<or> 100000000 < entityNumber t)))
   \<and> (isPoolCreation log \<and> topics log = Some ts
        \<and> (hexToHederaId bigNum (ts ! 1) = ''0.0.0'' \<or> hexToHederaId bigNum (ts ! 2) = ''0.0.0''
             \<or> extractPoolContractId bigNum (data log) (hexToHederaId bigNum (ts ! 1))
                  (hexToHederaId bigNum (ts ! 2)) = ''0.0.0'')
      \<longrightarrow> processLog net bigNum url st log = st
          \<and> parsePoolCreationEvents net bigNum (pre @ log # post) url calls
              = parsePoolCreationEvents net bigNum (pre @ post) url calls)"
proof (intro conjI impI)
  assume t: "isTopic32 t"
  show "hexToHederaId bigNum t =
        (if entityNumber t = 0 \<or> 100000000 < entityNumber t then ''0.0.0''
         else ''0.0.'' @ digits10 (entityNumber t))"
    by (rule hexToHederaId_entityNumber[OF isTopic32_hex[OF t]])
  show "(hexToHederaId bigNum t = ''0.0.0'') = (entityNumber t = 0 \<or> 100000000 < entityNumber t)"
    by (rule hexToHederaId_sentinel_iff[OF t])
next
  assume a: "isPoolCreation log \<and> topics log = Some ts
        \<and> (hexToHederaId bigNum (ts ! 1) = ''0.0.0'' \<or> hexToHederaId bigNum (ts ! 2) = ''0.0.0''
             \<or> extractPoolContractId bigNum (data log) (hexToHederaId bigNum (ts ! 1))
                  (hexToHederaId bigNum (ts ! 2)) = ''0.0.0'')"
  then have p: "\<And>st. processLog net bigNum url st log = st"
    using processLog_invalid[of log ts bigNum net url] by blast
  show "processLog net bigNum url st log = st" by (rule p)
  show "parsePoolCreationEvents net bigNum (pre @ log # post) url calls
              = parsePoolCreationEvents net bigNum (pre @ post) url calls"
    unfolding parsePoolCreationEvents_def by (rule parseLoop_drop) (rule p)
qed

theorem sentinel_discarded_witness:
  "hexToHederaId noBigNum ''0x0000000000000000000000000000000000000000000000000000000000000000'' = ''0.0.0''
   \<and> parsePoolCreationEvents mockAxios noBigNum [zeroTokenLog, mockLog] ''https://testnet.mirrornode.hedera.com'' [''logs'']
       = ([mockPool], [''logs'', ''https://testnet.mirrornode.hedera.com/api/v1/tokens/0.0.4660'',
                       ''https://testnet.mirrornode.hedera.com/api/v1/tokens/0.0.22136''])"
proof -
  let ?z = "''0x0000000000000000000000000000000000000000000000000000000000000000''"
  let ?ts = "[''0x783cca1c0412dd0d695e784568c96da2e9c22ff989357a2e8b1d9b2b4e6b7118'', ?z,
              ''0x0000000000000000000000000000000000000000000000000000000000005678'',
              ''0x0000000000000000000000000000000000000000000000000000000000000bb8'']"
  note inst = sentinel_discarded[of ?z noBigNum zeroTokenLog ?ts mockAxios "''https://testnet.mirrornode.hedera.com''"
      "([], [''logs''])" "[]" "[mockLog]" "[''logs'']"]
  have z: "hexToHederaId noBigNum ?z = ''0.0.0''"
    using inst isTopic32_zero entityNumber_zero by simp
  have ts: "topics zeroTokenLog = Some ?ts" by (simp add: zeroTokenLog_def)
  have "hexToHederaId noBigNum (?ts ! 1) = ''0.0.0''" using z by simp
  with inst isPoolCreation_zeroTokenLog ts
  have "parsePoolCreationEvents mockAxios noBigNum ([] @ zeroTokenLog # [mockLog]) ''https://testnet.mirrornode.hedera.com'' [''logs'']
          = parsePoolCreationEvents mockAxios noBigNum ([] @ [mockLog]) ''https://testnet.mirrornode.hedera.com'' [''logs'']"
    by blast
  then show ?thesis using z by (simp add: parsePoolCreationEvents_def processLog_mockLog)
qed

text \<open>
  Claim C4. The synthetic pool identifier is a function of the two token identifiers
  (\<open>extractPoolContractId\<close> ignores the event data), but it is built from their sum
  (\<open>extractPoolContractId_sum\<close>): the pairs of entity numbers \<open>{1, 4}\<close> and \<open>{2, 3}\<close>,
  decoded from their topics, get the same identifier, against the comment in the source
  that each pair gets its own.
\<close>

theorem synthetic_id_collision:
  "extractPoolContractId bigNum eventData
     (hexToHederaId bigNum ''0x0000000000000000000000000000000000000000000000000000000000000001'')
     (hexToHederaId bigNum ''0x0000000000000000000000000000000000000000000000000000000000000004'')
     = ''0.0.1000005''
   \<and> extractPoolContractId bigNum eventData'
     (hexToHederaId bigNum ''0x0000000000000000000000000000000000000000000000000000000000000002'')
     (hexToHederaId bigNum ''0x0000000000000000000000000000000000000000000000000000000000000003'')
     = ''0.0.1000005''"
  by (simp only: topic_1 topic_2 topic_3 topic_4 pool_1_4 pool_2_3)

section \<open>Filtering and assembling\<close>

text \<open>
  Claim C7. An entry without topics, whose first topic is not the pool-created signature,
  or with fewer than four topics is skipped by both plugins without an error: the
  result (records and requests) is that of the batch without the entry.
\<close>

theorem other_events_skipped:
  assumes "case topics log of None \<Rightarrow> True
           | Some ts \<Rightarrow> at ts 0 \<noteq> Some POOL_CREATED_TOPIC \<or> length ts < 4"
  shows "parsePoolCreationEvents net bigNum (pre @ log # post) url calls
           = parsePoolCreationEvents net bigNum (pre @ post) url calls
       \<and> parsePoolCreationEvents_v1 net bigNum (pre @ log # post) url calls
           = parsePoolCreationEvents_v1 net bigNum (pre @ post) url calls"
proof -
  have n: "\<not> isPoolCreation log" using assms by (auto simp: isPoolCreation_def split: option.splits)
  show ?thesis
    unfolding parsePoolCreationEvents_def parsePoolCreationEvents_v1_def
    using parseLoop_drop[OF processLog_other[OF n]] parseLoop_v1_drop[OF processLog_v1_other[OF n]]
    by blast
qed

theorem other_events_skipped_witness:
  "parsePoolCreationEvents mockAxios noBigNum [otherLog, mockLog] ''https://testnet.mirrornode.hedera.com'' [''logs'']
       = ([mockPool], [''logs'', ''https://testnet.mirrornode.hedera.com/api/v1/tokens/0.0.4660'',
                       ''https://testnet.mirrornode.hedera.com/api/v1/tokens/0.0.22136''])
   \<and> parsePoolCreationEvents_v1 mockAxios noBigNum [otherLog] ''https://testnet.mirrornode.hedera.com'' [''logs'']
       = ([], [''logs''])"
proof -
  have h: "case topics otherLog of None \<Rightarrow> True
           | Some ts \<Rightarrow> at ts 0 \<noteq> Some POOL_CREATED_TOPIC \<or> length ts < 4"
    by (simp add: otherLog_def at_def POOL_CREATED_TOPIC_def)
  from other_events_skipped[OF h, of mockAxios noBigNum "[]" "[mockLog]" "''https://testnet.mirrornode.hedera.com''" "[''logs'']"]
       other_events_skipped[OF h, of mockAxios noBigNum "[]" "[]" "''https://testnet.mirrornode.hedera.com''" "[''logs'']"]
  show ?thesis
    by (simp add: parsePoolCreationEvents_def parsePoolCreationEvents_v1_def processLog_mockLog)
qed

text \<open>
  Claim C9. A batch of one pool-creation entry whose two token topics are 32-byte topics
  with entity numbers from 1 to 100,000,000, and for which both token requests are
  answered, yields exactly one record, and the record's fee is the number parsed from the
  fee topic, unchanged. When that number is 3000, the fee tier
  the actions print, \<^verbatim>\<open>(fee / 10000).toFixed(2)\<close>, is \<^verbatim>\<open>0.30\<close>.
\<close>

theorem fee_carried_unchanged:
  assumes "isPoolCreation log" and "topics log = Some ts"
    and "isTopic32 (ts ! 1)" and "0 < entityNumber (ts ! 1)" and "entityNumber (ts ! 1) \<le> 100000000"
    and "isTopic32 (ts ! 2)" and "0 < entityNumber (ts ! 2)" and "entityNumber (ts ! 2) \<le> 100000000"
    and "parseInt (ts ! 3) (Some 16) = f"
    and "net (length calls) (url @ ''/api/v1/tokens/'' @ hexToHederaId bigNum (ts ! 1)) = Inr (Some token0)"
    and "net (Suc (length calls)) (url @ ''/api/v1/tokens/'' @ hexToHederaId bigNum (ts ! 2)) = Inr (Some token1)"
  shows "\<exists>p. fst (parsePoolCreationEvents net bigNum [log] url calls) = [p] \<and> fee p = f
             \<and> (f = Num 3000 \<longrightarrow> feeTier bigQuot (fee p) = ''0.30'')"
proof -
  note v = valid_candidate[OF assms(3,6,4,5,7,8)]
  let ?u0 = "url @ ''/api/v1/tokens/'' @ hexToHederaId bigNum (ts ! 1)"
  obtain a where a: "fetchTokenInfo net (hexToHederaId bigNum (ts ! 1)) url calls = (Some a, calls @ [?u0])"
    using fetchTokenInfo_ok[where net=net and calls=calls and url=url
        and tokenId="hexToHederaId bigNum (ts ! 1)" and token=token0] assms(10) by blast
  have "net (length (calls @ [?u0])) (url @ ''/api/v1/tokens/'' @ hexToHederaId bigNum (ts ! 2)) = Inr (Some token1)"
    using assms(11) by simp
  with fetchTokenInfo_ok[where net=net and calls="calls @ [?u0]" and url=url
        and tokenId="hexToHederaId bigNum (ts ! 2)" and token=token1]
  obtain b where b: "fetchTokenInfo net (hexToHederaId bigNum (ts ! 2)) url (calls @ [?u0])
                       = (Some b, (calls @ [?u0]) @ [url @ ''/api/v1/tokens/'' @ hexToHederaId bigNum (ts ! 2)])"
    by blast
  let ?p = "\<lparr> pool_id = length ([] :: ApiLiquidityPoolV2 list) + 1,
               contractId = extractPoolContractId bigNum (data log) (hexToHederaId bigNum (ts ! 1)) (hexToHederaId bigNum (ts ! 2)),
               tokenA = a, amountA = ''0'', tokenB = b, amountB = ''0'',
               fee = parseInt (ts ! 3) (Some 16),
               sqrtRatioX96 = ''79228162514264337593543950336'',
               tickCurrent = 0, liquidity = ''Available'' \<rparr>"
  have "fst (parsePoolCreationEvents net bigNum [log] url calls) = [?p]"
    unfolding parsePoolCreationEvents_def
    using processLog_emits[OF assms(1,2) v(3,4,6) a b, of "[]"] by simp
  moreover have "fee ?p = f" using assms(9) by simp
  moreover have "f = Num 3000 \<longrightarrow> feeTier bigQuot (fee ?p) = ''0.30''"
  proof
    assume "f = Num 3000"
    then have "fee ?p = Num 3000" using assms(9) by simp
    then show "feeTier bigQuot (fee ?p) = ''0.30''" by (simp only: feeTier_3000)
  qed
  ultimately show ?thesis by blast
qed

theorem fee_carried_unchanged_witness:
  "fst (parsePoolCreationEvents mockAxios noBigNum [mockLog] ''https://testnet.mirrornode.hedera.com'' [''logs'']) = [mockPool]
   \<and> fee mockPool = Num 3000 \<and> feeTier noBigNum (fee mockPool) = ''0.30''"
proof -
  let ?ts = "[''0x783cca1c0412dd0d695e784568c96da2e9c22ff989357a2e8b1d9b2b4e6b7118'',
              ''0x0000000000000000000000000000000000000000000000000000000000001234'',
              ''0x0000000000000000000000000000000000000000000000000000000000005678'',
              ''0x0000000000000000000000000000000000000000000000000000000000000bb8'']"
  have ts: "topics mockLog = Some ?ts" by (simp add: mockLog_def)
  have f: "parseInt (?ts ! 3) (Some 16) = Num 3000" by (simp add: fee3000)
  have t0: "isTopic32 (?ts ! 1)" "isTopic32 (?ts ! 2)" by (simp_all add: isTopic32_def withoutPrefix0x_def isHexDigit_def)
  have e1: "entityNumber (?ts ! 1) = 4660" by (simp add: entityNumber_def sliceLast_def digitsValue_def digitVal_def)
  have e2: "entityNumber (?ts ! 2) = 22136" by (simp add: entityNumber_def sliceLast_def digitsValue_def digitVal_def)
  have r: "0 < entityNumber (?ts ! 1)" "entityNumber (?ts ! 1) \<le> 100000000"
          "0 < entityNumber (?ts ! 2)" "entityNumber (?ts ! 2) \<le> 100000000"
    unfolding e1 e2 by simp_all
  have n0: "mockAxios (length [''logs''])
              (''https://testnet.mirrornode.hedera.com'' @ ''/api/v1/tokens/'' @ hexToHederaId noBigNum (?ts ! 1))
            = Inr (Some mockToken0Response)" by (simp add: mockAxios_def)
  have n1: "mockAxios (Suc (length [''logs'']))
              (''https://testnet.mirrornode.hedera.com'' @ ''/api/v1/tokens/'' @ hexToHederaId noBigNum (?ts ! 2))
            = Inr (Some mockToken1Response)" by (simp add: mockAxios_def)
  from fee_carried_unchanged[OF isPoolCreation_mockLog ts t0(1) r(1,2) t0(2) r(3,4) f n0 n1]
  obtain p where p: "fst (parsePoolCreationEvents mockAxios noBigNum [mockLog] ''https://testnet.mirrornode.hedera.com'' [''logs'']) = [p]"
    "fee p = Num 3000" "feeTier noBigNum (fee p) = ''0.30''" by blast
  have "fst (parsePoolCreationEvents mockAxios noBigNum [mockLog] ''https://testnet.mirrornode.hedera.com'' [''logs'']) = [mockPool]"
    by (simp add: parsePoolCreationEvents_def processLog_mockLog)
  with p show ?thesis by simp
qed

text \<open>
  Claim C2, as the code has it. In both plugins every record the pipeline emits is
  resolved from one of the entries of the batch: both token requests made for that entry
  succeeded and the record carries their two results. An entry for which either request
  fails adds no record. Nothing compares the two token identifiers.
\<close>

theorem emitted_pools_resolved:
  "(\<forall>p\<in>set (fst (parsePoolCreationEvents net bigNum logs url calls)).
       \<exists>log\<in>set logs. \<exists>c. resolvedFrom net bigNum url log c p)
   \<and> (\<forall>p\<in>set (fst (parsePoolCreationEvents_v1 net bigNum logs url calls)).
       \<exists>log\<in>set logs. \<exists>c. resolvedFrom_v1 net bigNum url log c p)
   \<and> (topics log = Some ts
       \<and> (fst (fetchTokenInfo net (hexToHederaId bigNum (ts ! 1)) url calls) = None
           \<or> fst (fetchTokenInfo net (hexToHederaId bigNum (ts ! 2)) url
                    (snd (fetchTokenInfo net (hexToHederaId bigNum (ts ! 1)) url calls))) = None)
      \<longrightarrow> fst (processLog net bigNum url (pools, calls) log) = pools)
   \<and> (topics log = Some ts
       \<and> (fst (fetchTokenInfo_v1 net bigNum (hexToHederaId_v1 bigNum (ts ! 1)) url calls) = None
           \<or> fst (fetchTokenInfo_v1 net bigNum (hexToHederaId_v1 bigNum (ts ! 2)) url
                    (snd (fetchTokenInfo_v1 net bigNum (hexToHederaId_v1 bigNum (ts ! 1)) url calls))) = None)
      \<longrightarrow> fst (processLog_v1 net bigNum url (pools_v1, calls) log) = pools_v1)"
proof (intro conjI impI)
  show "\<forall>p\<in>set (fst (parsePoolCreationEvents net bigNum logs url calls)).
       \<exists>log\<in>set logs. \<exists>c. resolvedFrom net bigNum url log c p"
    unfolding parsePoolCreationEvents_def using parseLoop_resolved[of net bigNum url logs "[]" calls] by simp
  show "\<forall>p\<in>set (fst (parsePoolCreationEvents_v1 net bigNum logs url calls)).
       \<exists>log\<in>set logs. \<exists>c. resolvedFrom_v1 net bigNum url log c p"
    unfolding parsePoolCreationEvents_v1_def using parseLoop_v1_resolved[of net bigNum url logs "[]" calls] by simp
next
  assume "topics log = Some ts
       \<and> (fst (fetchTokenInfo net (hexToHederaId bigNum (ts ! 1)) url calls) = None
           \<or> fst (fetchTokenInfo net (hexToHederaId bigNum (ts ! 2)) url
                    (snd (fetchTokenInfo net (hexToHederaId bigNum (ts ! 1)) url calls))) = None)"
  then show "fst (processLog net bigNum url (pools, calls) log) = pools"
    using processLog_fetch_failed[of log ts net bigNum url calls pools] by blast
next
  assume "topics log = Some ts
       \<and> (fst (fetchTokenInfo_v1 net bigNum (hexToHederaId_v1 bigNum (ts ! 1)) url calls) = None
           \<or> fst (fetchTokenInfo_v1 net bigNum (hexToHederaId_v1 bigNum (ts ! 2)) url
                    (snd (fetchTokenInfo_v1 net bigNum (hexToHederaId_v1 bigNum (ts ! 1)) url calls))) = None)"
  then show "fst (processLog_v1 net bigNum url (pools_v1, calls) log) = pools_v1"
    using processLog_v1_fetch_failed[of log ts net bigNum url calls pools_v1] by blast
qed


theorem emitted_pools_resolved_witness:
  "(\<exists>c. resolvedFrom mockAxios noBigNum ''https://testnet.mirrornode.hedera.com'' mockLog c mockPool)
   \<and> (\<exists>c. resolvedFrom_v1 mockAxios noBigNum ''https://testnet.mirrornode.hedera.com'' mockLog c mockPool_v1)
   \<and> fst (processLog mockAxios noBigNum ''https://testnet.mirrornode.hedera.com''
             ([], [''logs'', ''first'', ''second'']) mockLog) = []
   \<and> fst (processLog_v1 mockAxios noBigNum ''https://testnet.mirrornode.hedera.com''
             ([], [''logs'', ''first'', ''second'']) mockLog) = []"
proof -
  let ?u = "''https://testnet.mirrornode.hedera.com''"
  let ?ts = "[''0x783cca1c0412dd0d695e784568c96da2e9c22ff989357a2e8b1d9b2b4e6b7118'',
              ''0x0000000000000000000000000000000000000000000000000000000000001234'',
              ''0x0000000000000000000000000000000000000000000000000000000000005678'',
              ''0x0000000000000000000000000000000000000000000000000000000000000bb8'']"
  have ts: "topics mockLog = Some ?ts" by (simp add: mockLog_def)
  note inst1 = emitted_pools_resolved[of mockAxios noBigNum "[mockLog]" ?u "[''logs'']" mockLog ?ts "[]" "[]"]
  note inst2 = emitted_pools_resolved[of mockAxios noBigNum "[mockLog]" ?u "[''logs'', ''first'', ''second'']"
                 mockLog ?ts "[]" "[]"]
  have p: "fst (parsePoolCreationEvents mockAxios noBigNum [mockLog] ?u [''logs'']) = [mockPool]"
    by (simp add: parsePoolCreationEvents_def processLog_mockLog)
  have q: "fst (parsePoolCreationEvents_v1 mockAxios noBigNum [mockLog] ?u [''logs'']) = [mockPool_v1]"
    by (simp add: parsePoolCreationEvents_v1_def processLog_v1_mockLog)
  from inst1 have "\<forall>p\<in>set (fst (parsePoolCreationEvents mockAxios noBigNum [mockLog] ?u [''logs''])).
       \<exists>log\<in>set [mockLog]. \<exists>c. resolvedFrom mockAxios noBigNum ?u log c p" by (rule conjunct1)
  then have 1: "\<exists>c. resolvedFrom mockAxios noBigNum ?u mockLog c mockPool" unfolding p by simp
  from inst1 have "\<forall>p\<in>set (fst (parsePoolCreationEvents_v1 mockAxios noBigNum [mockLog] ?u [''logs''])).
       \<exists>log\<in>set [mockLog]. \<exists>c. resolvedFrom_v1 mockAxios noBigNum ?u log c p" by blast
  then have 2: "\<exists>c. resolvedFrom_v1 mockAxios noBigNum ?u mockLog c mockPool_v1" unfolding q by simp
  have 3: "fst (processLog mockAxios noBigNum ?u ([], [''logs'', ''first'', ''second'']) mockLog) = []"
    using inst2 ts fetch_mock_exhausted(1) by blast
  have 4: "fst (processLog_v1 mockAxios noBigNum ?u ([], [''logs'', ''first'', ''second'']) mockLog) = []"
    using inst2 ts fetch_mock_exhausted(2) by blast
  from 1 2 3 4 show ?thesis by (intro conjI)
qed

text \<open>
  Claim C2 as stated fails: an entry naming the same token in both token topics yields a
  record whose two tokens have the same identifier.
\<close>

theorem same_token_counterexample:
  "length (fst (parsePoolCreationEvents mockAxios noBigNum [sameTokenLog]
                  ''https://testnet.mirrornode.hedera.com'' [''logs''])) = 1
   \<and> token_id (tokenA (hd (fst (parsePoolCreationEvents mockAxios noBigNum [sameTokenLog]
                                 ''https://testnet.mirrornode.hedera.com'' [''logs''])))) = ''0.0.4660''
   \<and> token_id (tokenB (hd (fst (parsePoolCreationEvents mockAxios noBigNum [sameTokenLog]
                                 ''https://testnet.mirrornode.hedera.com'' [''logs''])))) = ''0.0.4660''"
  by (simp add: parsePoolCreationEvents_def processLog_sameTokenLog mockPool_def)




section \<open>The query actions\<close>

text \<open>
  Claim C5. The filter of \<open>getPoolInfoAction\<close> keeps exactly the decoded records whose
  two upper-cased token symbols, as an unordered pair, are the two upper-cased requested
  symbols. Whenever the action succeeds, the records it returns are that filter applied
  to what the log request decoded to. Asking for the two symbols in the other order gives
  the same records and the same requests.
\<close>

theorem findPool_unordered_pair:
  "matchingPools allPools (toUpperCase a) (toUpperCase b)
     = filter (\<lambda>p. {toUpperCase (symbol (tokenA p)), toUpperCase (symbol (tokenB p))}
                    = {toUpperCase a, toUpperCase b}) allPools
   \<and> matchingPools allPools (toUpperCase a) (toUpperCase b)
     = matchingPools allPools (toUpperCase b) (toUpperCase a)
   \<and> (m t = Some (a, b) \<and> fst (getPoolInfoAction s net bigNum cb m (Some t)) = Inr (Success msg n ps ds)
      \<longrightarrow> (\<exists>url logsUrl body. net 0 logsUrl = Inr (Some body)
             \<and> ps = matchingPools
                      (fst (parsePoolCreationEvents net bigNum
                              (case p_logs body of Some l \<Rightarrow> l | None \<Rightarrow> []) url [logsUrl]))
                      (toUpperCase a) (toUpperCase b)))
   \<and> (m t = Some (a, b) \<and> m' t = Some (b, a)
      \<longrightarrow> resultPools (fst (getPoolInfoAction s net bigNum cb m (Some t)))
            = resultPools (fst (getPoolInfoAction s net bigNum cb m' (Some t)))
          \<and> snd (getPoolInfoAction s net bigNum cb m (Some t))
            = snd (getPoolInfoAction s net bigNum cb m' (Some t)))"
proof (intro conjI impI)
  show "matchingPools allPools (toUpperCase a) (toUpperCase b)
     = filter (\<lambda>p. {toUpperCase (symbol (tokenA p)), toUpperCase (symbol (tokenB p))}
                    = {toUpperCase a, toUpperCase b}) allPools"
    by (rule matchingPools_set)
  show "matchingPools allPools (toUpperCase a) (toUpperCase b)
     = matchingPools allPools (toUpperCase b) (toUpperCase a)"
    by (rule matchingPools_swap)
next
  assume "m t = Some (a, b) \<and> fst (getPoolInfoAction s net bigNum cb m (Some t)) = Inr (Success msg n ps ds)"
  then have 1: "m t = Some (a, b)"
    and 2: "fst (getPoolInfoAction s net bigNum cb m (Some t)) = Inr (Success msg n ps ds)" by simp_all
  show "\<exists>url logsUrl body. net 0 logsUrl = Inr (Some body)
             \<and> ps = matchingPools
                      (fst (parsePoolCreationEvents net bigNum
                              (case p_logs body of Some l \<Rightarrow> l | None \<Rightarrow> []) url [logsUrl]))
                      (toUpperCase a) (toUpperCase b)"
    by (rule getPoolInfo_success[OF 1 2])
next
  assume "m t = Some (a, b) \<and> m' t = Some (b, a)"
  then have 1: "m t = Some (a, b)" and 2: "m' t = Some (b, a)" by simp_all
  from getPoolInfo_swap[of m t a b "m'" s net bigNum cb] 1 2
  show "resultPools (fst (getPoolInfoAction s net bigNum cb m (Some t)))
            = resultPools (fst (getPoolInfoAction s net bigNum cb m' (Some t)))"
    and "snd (getPoolInfoAction s net bigNum cb m (Some t))
            = snd (getPoolInfoAction s net bigNum cb m' (Some t))"
    by simp_all
qed

theorem findPool_unordered_pair_witness:
  "resultPools (fst (getPoolInfoAction testnetSettings mockAxios noBigNum None matchWhbarUsdc
                       (Some ''Show whbar/usdc pool details''))) = [mockPool]
   \<and> resultPools (fst (getPoolInfoAction testnetSettings mockAxios noBigNum None matchUsdcWhbar
                       (Some ''Show whbar/usdc pool details''))) = [mockPool]
   \<and> matchingPools [mockPool] (toUpperCase ''usdc'') (toUpperCase ''whbar'') = [mockPool]
   \<and> (\<exists>url logsUrl body. mockAxios 0 logsUrl = Inr (Some body)
         \<and> [mockPool] = matchingPools
                  (fst (parsePoolCreationEvents mockAxios noBigNum
                          (case p_logs body of Some l \<Rightarrow> l | None \<Rightarrow> []) url [logsUrl]))
                  (toUpperCase ''whbar'') (toUpperCase ''usdc''))"
proof -
  note inst = findPool_unordered_pair[of "[mockPool]" "''whbar''" "''usdc''" matchWhbarUsdc
      "''Show whbar/usdc pool details''" testnetSettings mockAxios noBigNum None
      "''Found 1 pool(s) for WHBAR/USDC''" 1 "[mockPool]"
      "''Hedera Mirror Node (https://testnet.mirrornode.hedera.com)''" matchUsdcWhbar]
  have m: "matchWhbarUsdc ''Show whbar/usdc pool details'' = Some (''whbar'', ''usdc'')"
    "matchUsdcWhbar ''Show whbar/usdc pool details'' = Some (''usdc'', ''whbar'')"
    by (simp_all add: matchWhbarUsdc_def matchUsdcWhbar_def)
  have r: "resultPools (fst (getPoolInfoAction testnetSettings mockAxios noBigNum None matchWhbarUsdc
                       (Some ''Show whbar/usdc pool details''))) = [mockPool]"
    by (simp add: getPoolInfo_mock resultPools_def)
  from inst m have "resultPools (fst (getPoolInfoAction testnetSettings mockAxios noBigNum None matchWhbarUsdc
                       (Some ''Show whbar/usdc pool details'')))
          = resultPools (fst (getPoolInfoAction testnetSettings mockAxios noBigNum None matchUsdcWhbar
                       (Some ''Show whbar/usdc pool details'')))"
    by blast
  then have "resultPools (fst (getPoolInfoAction testnetSettings mockAxios noBigNum None matchUsdcWhbar
                       (Some ''Show whbar/usdc pool details''))) = [mockPool]"
    using r by (simp only:)
  moreover from inst have "matchingPools [mockPool] (toUpperCase ''whbar'') (toUpperCase ''usdc'')
       = matchingPools [mockPool] (toUpperCase ''usdc'') (toUpperCase ''whbar'')" by blast
  then have "matchingPools [mockPool] (toUpperCase ''usdc'') (toUpperCase ''whbar'') = [mockPool]"
    by (simp only: upper_WHBAR upper_USDC matchingPools_mock)
  moreover have "fst (getPoolInfoAction testnetSettings mockAxios noBigNum None matchWhbarUsdc
                       (Some ''Show whbar/usdc pool details''))
          = Inr (Success ''Found 1 pool(s) for WHBAR/USDC'' 1 [mockPool]
                   ''Hedera Mirror Node (https://testnet.mirrornode.hedera.com)'')"
    by (simp only: getPoolInfo_mock fst_conv)
  with inst m have "\<exists>url logsUrl body. mockAxios 0 logsUrl = Inr (Some body)
         \<and> [mockPool] = matchingPools
                  (fst (parsePoolCreationEvents mockAxios noBigNum
                          (case p_logs body of Some l \<Rightarrow> l | None \<Rightarrow> []) url [logsUrl]))
                  (toUpperCase ''whbar'') (toUpperCase ''usdc'')"
    by blast
  ultimately show ?thesis using r by (simp only:)
qed

text \<open>
  Claim C1, as the code has it. Neither list action raises: every error ends in a
  result value. When \<open>fetchAllPoolsAction\<close> (\<^verbatim>\<open>src/plugin.ts\<close>) has made its log request
  and nothing else, the request has failed and the callback returns, the result holds the
  demo dataset and a data-source label containing \<^verbatim>\<open>mock\<close>. When the log request of
  \<open>listPoolsAction\<close> (\<^verbatim>\<open>plugin-hedera-dex\<close>) is rejected, the result is a failure carrying
  the error's message: that plugin has no demo dataset to fall back to.
\<close>

theorem list_never_raises:
  "(\<exists>r. fst (fetchAllPoolsAction s net bigNum cb) = Inr r)
   \<and> (\<exists>r. fst (listPoolsAction s net bigNum cb) = Inr r)
   \<and> (snd (fetchAllPoolsAction s net bigNum cb) = [logsUrl] \<and> fetchFailed (net 0 logsUrl) \<and> cb = Some None
      \<longrightarrow> (\<exists>label. fst (fetchAllPoolsAction s net bigNum cb)
                       = Inr (Success ''Successfully fetched 1 pools from SaucerSwap'' 1 mockPoolsData label)
                   \<and> str_includes label ''mock''))
   \<and> (snd (listPoolsAction s net bigNum cb) = [logsUrl] \<and> net 0 logsUrl = Inl e
      \<longrightarrow> fst (listPoolsAction s net bigNum cb)
            = Inr (Failure (''Failed to fetch pools from SaucerSwap: '' @ message e)
                     ''FETCH_POOLS_FAILED'' (message e)))"
proof (intro conjI impI)
  show "\<exists>r. fst (fetchAllPoolsAction s net bigNum cb) = Inr r" by (rule fetchAllPoolsAction_returns)
  show "\<exists>r. fst (listPoolsAction s net bigNum cb) = Inr r" by (rule listPoolsAction_returns)
next
  assume a: "snd (fetchAllPoolsAction s net bigNum cb) = [logsUrl] \<and> fetchFailed (net 0 logsUrl) \<and> cb = Some None"
  then have "snd (choosePools s net bigNum) = [logsUrl]" by (simp add: snd_fetchAllPoolsAction)
  from choosePools_failed[OF this] a obtain url where
    c: "fst (choosePools s net bigNum)
          = (mockPoolsData, ''Hedera Mirror Node ('' @ url @ '') - Error fetching data, using mock data'')"
    by blast
  have "fst (fetchAllPoolsAction s net bigNum cb)
          = Inr (Success ''Successfully fetched 1 pools from SaucerSwap'' 1 mockPoolsData
                   (''Hedera Mirror Node ('' @ url @ '') - Error fetching data, using mock data''))"
    using fetchAllPoolsAction_ok[OF c] a by (simp add: mockPoolsData_shape digits10_1)
  then show "\<exists>label. fst (fetchAllPoolsAction s net bigNum cb)
                       = Inr (Success ''Successfully fetched 1 pools from SaucerSwap'' 1 mockPoolsData label)
                   \<and> str_includes label ''mock''"
    using mock_label_includes[of url] by blast
next
  assume "snd (listPoolsAction s net bigNum cb) = [logsUrl] \<and> net 0 logsUrl = Inl e"
  then show "fst (listPoolsAction s net bigNum cb)
            = Inr (Failure (''Failed to fetch pools from SaucerSwap: '' @ message e)
                     ''FETCH_POOLS_FAILED'' (message e))"
    using listPoolsAction_failed[of s net bigNum cb logsUrl e] by blast
qed

theorem list_never_raises_witness:
  "fetchAllPoolsAction testnetSettings downAxios noBigNum (Some None)
     = (Inr (Success ''Successfully fetched 1 pools from SaucerSwap'' 1 mockPoolsData
               ''Hedera Mirror Node (https://testnet.mirrornode.hedera.com) - Error fetching data, using mock data''),
        [''https://testnet.mirrornode.hedera.com/api/v1/contracts/0.0.1197038/results/logs?limit=20''])
   \<and> (\<exists>label. fst (fetchAllPoolsAction testnetSettings downAxios noBigNum (Some None))
                  = Inr (Success ''Successfully fetched 1 pools from SaucerSwap'' 1 mockPoolsData label)
              \<and> str_includes label ''mock'')
   \<and> fst (listPoolsAction testnetSettings downAxios noBigNum (Some None))
       = Inr (Failure ''Failed to fetch pools from SaucerSwap: Mirror Node API error''
                ''FETCH_POOLS_FAILED'' ''Mirror Node API error'')"
proof -
  let ?l20 = "''https://testnet.mirrornode.hedera.com/api/v1/contracts/0.0.1197038/results/logs?limit=20''"
  let ?l100 = "''https://testnet.mirrornode.hedera.com/api/v1/contracts/0.0.1197038/results/logs?limit=100''"
  note i1 = list_never_raises[of testnetSettings downAxios noBigNum "Some None" ?l20 "Error ''Mirror Node API error''"]
  note i2 = list_never_raises[of testnetSettings downAxios noBigNum "Some None" ?l100 "Error ''Mirror Node API error''"]
  have a: "snd (fetchAllPoolsAction testnetSettings downAxios noBigNum (Some None)) = [?l20]"
    by (simp only: fetchAll_down snd_conv)
  have b: "fetchFailed (downAxios 0 ?l20)" by (simp add: fetchFailed_def downAxios_def)
  have c: "snd (listPoolsAction testnetSettings downAxios noBigNum (Some None)) = [?l100]"
    unfolding listPoolsAction_def listPoolsBody_def Let_def
    by (simp add: testnetSettings_def strOr_def CONTRACT_ADDRESSES_factory_def axios_get_def downAxios_def)
  have d: "downAxios 0 ?l100 = Inl (Error ''Mirror Node API error'')" by (simp add: downAxios_def)
  from i1 a b have 1: "\<exists>label. fst (fetchAllPoolsAction testnetSettings downAxios noBigNum (Some None))
                  = Inr (Success ''Successfully fetched 1 pools from SaucerSwap'' 1 mockPoolsData label)
              \<and> str_includes label ''mock''" by blast
  from i2 c d have "fst (listPoolsAction testnetSettings downAxios noBigNum (Some None))
       = Inr (Failure (''Failed to fetch pools from SaucerSwap: '' @ message (Error ''Mirror Node API error''))
                ''FETCH_POOLS_FAILED'' (message (Error ''Mirror Node API error'')))" by blast
  then have 2: "fst (listPoolsAction testnetSettings downAxios noBigNum (Some None))
       = Inr (Failure ''Failed to fetch pools from SaucerSwap: Mirror Node API error''
                ''FETCH_POOLS_FAILED'' ''Mirror Node API error'')" by simp
  from fetchAll_down 1 2 show ?thesis by (intro conjI)
qed

text \<open>
  Claim C1 as stated fails on \<open>listPoolsAction\<close>: with the mirror node down it answers
  with a failure result, not with a demo dataset.
\<close>

theorem list_no_fallback_counterexample:
  "listPoolsAction testnetSettings downAxios noBigNum None
     = (Inr (Failure ''Failed to fetch pools from SaucerSwap: Mirror Node API error'' ''FETCH_POOLS_FAILED''
               ''Mirror Node API error''),
        [''https://testnet.mirrornode.hedera.com/api/v1/contracts/0.0.1197038/results/logs?limit=100''])"
  by (rule listPools_down)

text \<open>
  Claim C6, as the code has it. With the setting \<^verbatim>\<open>DEMO_MODE\<close> equal to \<^verbatim>\<open>true\<close>,
  \<open>fetchAllPoolsAction\<close> makes no request, and returns the demo dataset labelled
  \<^verbatim>\<open>Demo Mode (Mock Data)\<close> when its callback returns. \<open>listPoolsAction\<close> never reads
  the setting: its result and its requests are the same whatever the flag.
\<close>

theorem demo_mode_no_network:
  "(DEMO_MODE s = Some ''true''
      \<longrightarrow> snd (fetchAllPoolsAction s net bigNum cb) = []
          \<and> (cb = Some None
              \<longrightarrow> fst (fetchAllPoolsAction s net bigNum cb)
                    = Inr (Success ''Successfully fetched 1 pools from SaucerSwap'' 1 mockPoolsData
                             ''Demo Mode (Mock Data)'')))
   \<and> listPoolsAction (s\<lparr>DEMO_MODE := d\<rparr>) net bigNum cb = listPoolsAction s net bigNum cb"
proof (intro conjI impI)
  assume t: "DEMO_MODE s = Some ''true''"
  show "snd (fetchAllPoolsAction s net bigNum cb) = []"
    by (simp add: snd_fetchAllPoolsAction choosePools_demo[OF t])
  assume "cb = Some None"
  moreover have "fst (choosePools s net bigNum) = (mockPoolsData, ''Demo Mode (Mock Data)'')"
    by (simp add: choosePools_demo[OF t])
  ultimately show "fst (fetchAllPoolsAction s net bigNum cb)
                    = Inr (Success ''Successfully fetched 1 pools from SaucerSwap'' 1 mockPoolsData
                             ''Demo Mode (Mock Data)'')"
    using fetchAllPoolsAction_ok[of s net bigNum mockPoolsData "''Demo Mode (Mock Data)''"]
    by (simp add: mockPoolsData_shape digits10_1)
next
  show "listPoolsAction (s\<lparr>DEMO_MODE := d\<rparr>) net bigNum cb = listPoolsAction s net bigNum cb"
    by (rule listPoolsAction_ignores_demo)
qed

theorem demo_mode_no_network_witness:
  "fetchAllPoolsAction demoSettings mockAxios noBigNum (Some None)
     = (Inr (Success ''Successfully fetched 1 pools from SaucerSwap'' 1 mockPoolsData ''Demo Mode (Mock Data)''), [])
   \<and> listPoolsAction (testnetSettings\<lparr>DEMO_MODE := Some ''true''\<rparr>) mockAxios noBigNum None
     = listPoolsAction testnetSettings mockAxios noBigNum None"
proof -
  have t: "DEMO_MODE demoSettings = Some ''true''" by (simp add: demoSettings_def)
  from demo_mode_no_network[of demoSettings mockAxios noBigNum "Some None"] t
  have "snd (fetchAllPoolsAction demoSettings mockAxios noBigNum (Some None)) = []"
    and "fst (fetchAllPoolsAction demoSettings mockAxios noBigNum (Some None))
           = Inr (Success ''Successfully fetched 1 pools from SaucerSwap'' 1 mockPoolsData ''Demo Mode (Mock Data)'')"
    by blast+
  then have "fetchAllPoolsAction demoSettings mockAxios noBigNum (Some None)
     = (Inr (Success ''Successfully fetched 1 pools from SaucerSwap'' 1 mockPoolsData ''Demo Mode (Mock Data)''), [])"
    by (simp add: prod_eq_iff)
  moreover from demo_mode_no_network[of testnetSettings mockAxios noBigNum None "Some ''true''"]
  have "listPoolsAction (testnetSettings\<lparr>DEMO_MODE := Some ''true''\<rparr>) mockAxios noBigNum None
     = listPoolsAction testnetSettings mockAxios noBigNum None" by blast
  ultimately show ?thesis by (intro conjI)
qed

text \<open>
  Claim C6 as stated fails on \<open>listPoolsAction\<close>: with the flag set it still makes its
  three requests and returns the live record.
\<close>

theorem demo_flag_ignored_counterexample:
  "listPoolsAction demoSettings mockAxios noBigNum None
     = (Inr (Success ''Successfully fetched 1 pools from SaucerSwap'' 1 [mockPool]
               ''Hedera Mirror Node (https://testnet.mirrornode.hedera.com) - 1 pools from contract events''),
        [''https://testnet.mirrornode.hedera.com/api/v1/contracts/0.0.1197038/results/logs?limit=100'',
         ''https://testnet.mirrornode.hedera.com/api/v1/tokens/0.0.4660'',
         ''https://testnet.mirrornode.hedera.com/api/v1/tokens/0.0.22136''])"
  by (rule listPools_demo_mock)

end
